theory Spec2Isabelle
  imports Main "HOL-Library.Word"
begin

section \<open>Data model\<close>

text \<open>
  The native half of the network statistics service
  (\<^verbatim>\<open>service-t/jni/com_android_server_net_NetworkStatsService.cpp\<close>).

  Fixed-width C types are words: \<^verbatim>\<open>uint64_t\<close> is \<open>64 word\<close>, \<^verbatim>\<open>uint32_t\<close> is
  \<open>32 word\<close>, and the JNI type \<^verbatim>\<open>jint\<close> is a \<open>32 word\<close> read with \<open>sint\<close>.
  The \<^verbatim>\<open>jlong\<close> a native method returns is kept as the 64 bits the C conversion
  from \<^verbatim>\<open>uint64_t\<close> leaves in it.
\<close>

type_synonym uint64_t = "64 word"
type_synonym uint32_t = "32 word"
type_synonym jint = "32 word"
type_synonym jlong = "64 word"

text \<open>\<^verbatim>\<open>struct StatsValue\<close>: the four counters the code reads and writes.\<close>

record StatsValue =
  rxBytes :: uint64_t
  rxPackets :: uint64_t
  txBytes :: uint64_t
  txPackets :: uint64_t

text \<open>\<^verbatim>\<open>StatsValue stats = {};\<close>\<close>

definition zero_stats :: StatsValue where
  "zero_stats = \<lparr>rxBytes = 0, rxPackets = 0, txBytes = 0, txPackets = 0\<rparr>"

text \<open>\<^verbatim>\<open>static const uint64_t UNKNOWN = -1;\<close>\<close>

definition UNKNOWN :: uint64_t where
  "UNKNOWN = - 1"

text \<open>
  \<^verbatim>\<open>enum StatsType\<close>. The native methods cast a \<^verbatim>\<open>jint\<close> to the enum, so a value of
  the type is any 32-bit integer; the four enumerators are constants.
\<close>

type_synonym StatsType = jint

definition RX_BYTES :: StatsType where "RX_BYTES = 0"
definition RX_PACKETS :: StatsType where "RX_PACKETS = 1"
definition TX_BYTES :: StatsType where "TX_BYTES = 2"
definition TX_PACKETS :: StatsType where "TX_PACKETS = 3"

section \<open>Counter selector\<close>

definition getStatsType :: "StatsValue \<Rightarrow> StatsType \<Rightarrow> uint64_t" where
  "getStatsType stats type =
     (if type = RX_BYTES then rxBytes stats
      else if type = RX_PACKETS then rxPackets stats
      else if type = TX_BYTES then txBytes stats
      else if type = TX_PACKETS then txPackets stats
      else UNKNOWN)"

section \<open>The C library calls the parsers make\<close>

text \<open>
  The parsers read a text table with \<^verbatim>\<open>fopen\<close>, \<^verbatim>\<open>fgets\<close>, \<^verbatim>\<open>sscanf\<close> and
  \<^verbatim>\<open>fclose\<close>. These are modelled after ISO C (7.21.5, 7.21.6.2, 7.21.7.2) for the
  two format strings the source uses. A string is the bytes of a C string; the
  terminating NUL is not part of it.
\<close>

subsection \<open>Files\<close>

text \<open>
  A table in the proc file system: the bytes a reader gets, and what \<^verbatim>\<open>fclose\<close>
  returns for it (0, or \<^verbatim>\<open>EOF\<close>). The file system maps a path to a table;
  \<^verbatim>\<open>fopen\<close> returns \<^verbatim>\<open>NULL\<close> (\<open>None\<close>) for a path that cannot be opened.
  An open stream is the bytes not yet read. A read error ends the loops of the parsers
  as the end of the file does (\<^verbatim>\<open>fgets\<close> returns \<^verbatim>\<open>NULL\<close> for both), so the bytes of
  a table are the bytes delivered before either.
\<close>

record proc_file =
  file_bytes :: string
  fclose_result :: int

type_synonym file_system = "string \<Rightarrow> proc_file option"

definition fopen :: "file_system \<Rightarrow> string \<Rightarrow> proc_file option" where
  "fopen fs path = fs path"

definition fclose :: "proc_file \<Rightarrow> int" where
  "fclose f = fclose_result f"

text \<open>
  \<^verbatim>\<open>fgets(buffer, n, fp)\<close> reads at most \<open>n - 1\<close> bytes and stops after a
  newline. \<open>fgets_chunk n\<close> splits the unread bytes into the bytes stored and the
  bytes left; \<open>fgets\<close> is \<open>None\<close> (\<^verbatim>\<open>NULL\<close>) at end of file.
\<close>

fun fgets_chunk :: "nat \<Rightarrow> string \<Rightarrow> string \<times> string" where
  "fgets_chunk 0 s = ([], s)"
| "fgets_chunk (Suc n) [] = ([], [])"
| "fgets_chunk (Suc n) (c # s) =
     (if c = CHR 0x0A then ([c], s)
      else (case fgets_chunk n s of (l, r) \<Rightarrow> (c # l, r)))"

definition fgets :: "nat \<Rightarrow> string \<Rightarrow> (string \<times> string) option" where
  "fgets n fp = (if fp = [] then None else Some (fgets_chunk (n - 1) fp))"

text \<open>
  A buffer is read as a C string: up to the first NUL byte. A table may hold NUL
  bytes; \<^verbatim>\<open>fgets\<close> stores them and \<^verbatim>\<open>sscanf\<close> stops there.
\<close>

definition c_str :: "string \<Rightarrow> string" where
  "c_str s = takeWhile (\<lambda>c. c \<noteq> CHR 0x00) s"

text \<open>\<^verbatim>\<open>strcmp(a, b)\<close>: only compared with 0 in the source.\<close>

definition strcmp :: "string \<Rightarrow> string \<Rightarrow> int" where
  "strcmp a b = (if c_str a = c_str b then 0 else 1)"

subsection \<open>Formatted input\<close>

definition isspace :: "char \<Rightarrow> bool" where
  "isspace c \<longleftrightarrow>
     c = CHR 0x20 \<or> c = CHR 0x09 \<or> c = CHR 0x0A \<or> c = CHR 0x0B \<or> c = CHR 0x0C \<or> c = CHR 0x0D"

text \<open>The value of a digit, decimal or hexadecimal.\<close>

definition digit_of :: "char \<Rightarrow> nat option" where
  "digit_of c =
     (let n = (of_char c :: nat) in
      if 48 \<le> n \<and> n \<le> 57 then Some (n - 48)
      else if 97 \<le> n \<and> n \<le> 102 then Some (n - 87)
      else if 65 \<le> n \<and> n \<le> 70 then Some (n - 55)
      else None)"

definition is_digit :: "nat \<Rightarrow> char \<Rightarrow> bool" where
  "is_digit base c = (case digit_of c of None \<Rightarrow> False | Some d \<Rightarrow> d < base)"

definition digits_value :: "nat \<Rightarrow> string \<Rightarrow> nat" where
  "digits_value base ds = foldl (\<lambda>a c. a * base + the (digit_of c)) 0 ds"

text \<open>
  The unsigned conversions take an optionally signed integer, as \<^verbatim>\<open>strtoumax\<close>
  does: a value out of range is \<^verbatim>\<open>UINTMAX_MAX\<close>, a minus sign negates modulo
  \<open>2 ^ 64\<close>. A 32-bit destination receives the low 32 bits of the value.
\<close>

definition to_uintmax :: "bool \<Rightarrow> nat \<Rightarrow> uint64_t" where
  "to_uintmax neg n = (if 2 ^ 64 \<le> n then - 1 else if neg then - of_nat n else of_nat n)"

definition scan_sign :: "string \<Rightarrow> bool \<times> string" where
  "scan_sign s =
     (case s of
        [] \<Rightarrow> (False, s)
      | c # r \<Rightarrow> if c = CHR ''-'' then (True, r) else if c = CHR ''+'' then (False, r) else (False, s))"

text \<open>A \<^verbatim>\<open>0x\<close> or \<^verbatim>\<open>0X\<close> before a hexadecimal digit is part of a \<^verbatim>\<open>%x\<close> item.\<close>

definition scan_prefix :: "nat \<Rightarrow> string \<Rightarrow> string" where
  "scan_prefix base s =
     (case s of
        c0 # cx # d # r \<Rightarrow>
          if base = 16 \<and> c0 = CHR ''0'' \<and> (cx = CHR ''x'' \<or> cx = CHR ''X'') \<and> is_digit 16 d
          then d # r else s
      | _ \<Rightarrow> s)"

text \<open>
  An unsigned integer item at the head of the input (white space already skipped):
  its value and the input after it, or \<open>None\<close> when no digit is there.
\<close>

definition scan_uint :: "nat \<Rightarrow> string \<Rightarrow> (uint64_t \<times> string) option" where
  "scan_uint base s =
     (case scan_sign s of (neg, s1) \<Rightarrow>
        (let s2 = scan_prefix base s1; ds = takeWhile (is_digit base) s2 in
         if ds = [] then None
         else Some (to_uintmax neg (digits_value base ds), drop (length ds) s2)))"

text \<open>
  The directives of the two format strings: white space, an ordinary character,
  \<^verbatim>\<open>%<w>s\<close>, a 64-bit \<^verbatim>\<open>%u\<close> (\<^verbatim>\<open>SCNu64\<close>), a 64-bit \<^verbatim>\<open>%x\<close> (\<^verbatim>\<open>SCNx64\<close>), a
  32-bit \<^verbatim>\<open>%u\<close> (\<^verbatim>\<open>SCNu32\<close>), and the suppressed \<^verbatim>\<open>%*u\<close>. An assigned
  argument is a string or a number of the width of its destination.
\<close>

datatype directive = Space | Ordinary char | Conv_s nat | Conv_u64 | Conv_x64 | Conv_u32 | Skip_u

datatype arg = Arg_s string | Arg_u64 uint64_t | Arg_u32 uint32_t

text \<open>
  \<^verbatim>\<open>sscanf\<close> returns the number of arguments assigned, or \<^verbatim>\<open>EOF\<close> (\<open>- 1\<close>) when
  the input ends before the first conversion. In both format strings the first
  conversion assigns, so no conversion has completed exactly when no argument is
  assigned. Destinations beyond the arguments assigned keep what they held.
\<close>

definition matching_failure :: "arg list \<Rightarrow> int \<times> arg list" where
  "matching_failure args = (int (length args), args)"

definition input_failure :: "arg list \<Rightarrow> int \<times> arg list" where
  "input_failure args = (if args = [] then (- 1, args) else (int (length args), args))"

fun sscanf_run :: "directive list \<Rightarrow> string \<Rightarrow> arg list \<Rightarrow> int \<times> arg list" where
  "sscanf_run [] inp args = (int (length args), args)"
| "sscanf_run (Space # ds) inp args = sscanf_run ds (dropWhile isspace inp) args"
| "sscanf_run (Ordinary c # ds) inp args =
     (case inp of
        [] \<Rightarrow> input_failure args
      | x # r \<Rightarrow> if x = c then sscanf_run ds r args else matching_failure args)"
| "sscanf_run (Conv_s w # ds) inp args =
     (let inp1 = dropWhile isspace inp in
      if inp1 = [] then input_failure args
      else (let tok = takeWhile (\<lambda>c. \<not> isspace c) (take w inp1) in
            sscanf_run ds (drop (length tok) inp1) (args @ [Arg_s tok])))"
| "sscanf_run (Conv_u64 # ds) inp args =
     (let inp1 = dropWhile isspace inp in
      if inp1 = [] then input_failure args
      else (case scan_uint 10 inp1 of
              None \<Rightarrow> matching_failure args
            | Some (v, r) \<Rightarrow> sscanf_run ds r (args @ [Arg_u64 v])))"
| "sscanf_run (Conv_x64 # ds) inp args =
     (let inp1 = dropWhile isspace inp in
      if inp1 = [] then input_failure args
      else (case scan_uint 16 inp1 of
              None \<Rightarrow> matching_failure args
            | Some (v, r) \<Rightarrow> sscanf_run ds r (args @ [Arg_u64 v])))"
| "sscanf_run (Conv_u32 # ds) inp args =
     (let inp1 = dropWhile isspace inp in
      if inp1 = [] then input_failure args
      else (case scan_uint 10 inp1 of
              None \<Rightarrow> matching_failure args
            | Some (v, r) \<Rightarrow> sscanf_run ds r (args @ [Arg_u32 (ucast v)])))"
| "sscanf_run (Skip_u # ds) inp args =
     (let inp1 = dropWhile isspace inp in
      if inp1 = [] then input_failure args
      else (case scan_uint 10 inp1 of
              None \<Rightarrow> matching_failure args
            | Some (v, r) \<Rightarrow> sscanf_run ds r args))"

definition sscanf :: "string \<Rightarrow> directive list \<Rightarrow> int \<times> arg list" where
  "sscanf buffer format = sscanf_run format (c_str buffer) []"

section \<open>Legacy table parsers\<close>

definition QTAGUID_IFACE_STATS :: string where
  "QTAGUID_IFACE_STATS = ''/proc/net/xt_qtaguid/iface_stat_fmt''"

definition QTAGUID_UID_STATS :: string where
  "QTAGUID_UID_STATS = ''/proc/net/xt_qtaguid/stats''"

subsection \<open>Interface table\<close>

text \<open>
  The format string of \<^verbatim>\<open>parseIfaceStats\<close>, after the macros are expanded:
  \<^verbatim>\<open>%31s %llu %llu %llu %llu %*u %llu %*u %*u %*u %*u %*u %llu %*u %*u %*u %*u\<close>
\<close>

definition iface_stat_format :: "directive list" where
  "iface_stat_format =
     [Conv_s 31, Space, Conv_u64, Space, Conv_u64, Space, Conv_u64, Space, Conv_u64,
      Space, Skip_u, Space, Conv_u64,
      Space, Skip_u, Space, Skip_u, Space, Skip_u, Space, Skip_u, Space, Skip_u,
      Space, Conv_u64,
      Space, Skip_u, Space, Skip_u, Space, Skip_u, Space, Skip_u]"

text \<open>
  The local variables \<^verbatim>\<open>sscanf\<close> assigns first, which are the ones the loop reads
  (\<^verbatim>\<open>tcpRxPackets\<close> and \<^verbatim>\<open>tcpTxPackets\<close> are assigned and never read). The
  loop reads them only when at least five arguments were assigned; the first five
  arguments then are a string and four 64-bit numbers (\<open>iface_shape\<close> below), so
  \<open>iface_vars_of\<close> is \<open>None\<close> only on argument lists the loop never reads.
\<close>

record iface_vars =
  cur_iface :: string
  if_rxBytes :: uint64_t
  if_rxPackets :: uint64_t
  if_txBytes :: uint64_t
  if_txPackets :: uint64_t

fun iface_vars_of :: "arg list \<Rightarrow> iface_vars option" where
  "iface_vars_of (Arg_s n # Arg_u64 a # Arg_u64 b # Arg_u64 c # Arg_u64 d # _) =
     Some \<lparr>cur_iface = n, if_rxBytes = a, if_rxPackets = b, if_txBytes = c, if_txPackets = d\<rparr>"
| "iface_vars_of _ = None"

text \<open>The body of the \<^verbatim>\<open>while\<close> loop, for the line in \<^verbatim>\<open>buffer\<close>.\<close>

definition parseIfaceStats_line :: "string option \<Rightarrow> string \<Rightarrow> StatsValue \<Rightarrow> StatsValue" where
  "parseIfaceStats_line iface buffer stats =
     (case sscanf buffer iface_stat_format of (matched, args) \<Rightarrow>
        if 5 \<le> matched then
          (case iface_vars_of args of
             None \<Rightarrow> stats
           | Some v \<Rightarrow>
               if (case iface of None \<Rightarrow> True | Some name \<Rightarrow> strcmp name (cur_iface v) = 0)
               then stats\<lparr>rxBytes := rxBytes stats + if_rxBytes v,
                          rxPackets := rxPackets stats + if_rxPackets v,
                          txBytes := txBytes stats + if_txBytes v,
                          txPackets := txPackets stats + if_txPackets v\<rparr>
               else stats)
        else stats)"

lemma fgets_chunk_shorter:
  "s \<noteq> [] \<Longrightarrow> length (snd (fgets_chunk (Suc n) s)) < length s"
proof (induction n arbitrary: s)
  case 0
  then show ?case by (cases s) auto
next
  case (Suc n)
  then obtain c r where s: "s = c # r" by (cases s) auto
  show ?case
  proof (cases r)
    case Nil
    with s show ?thesis by simp
  next
    case (Cons d r')
    with Suc.IH [of r] have "length (snd (fgets_chunk (Suc n) r)) < length r" by simp
    with s show ?thesis by (simp add: case_prod_unfold)
  qed
qed

lemma fgets_shorter:
  "fgets 384 fp = Some (buffer, fp') \<Longrightarrow> length fp' < length fp"
  using fgets_chunk_shorter [of fp 382]
  by (auto simp: fgets_def split: if_splits)

function parseIfaceStats_loop :: "string option \<Rightarrow> string \<Rightarrow> StatsValue \<Rightarrow> StatsValue" where
  "parseIfaceStats_loop iface fp stats =
     (case fgets 384 fp of
        None \<Rightarrow> stats
      | Some (buffer, fp') \<Rightarrow>
          parseIfaceStats_loop iface fp' (parseIfaceStats_line iface buffer stats))"
  by pat_completeness auto
termination
  by (relation "measure (\<lambda>(iface, fp, stats). length fp)") (auto dest: fgets_shorter)

declare parseIfaceStats_loop.simps [simp del]

definition parseIfaceStats :: "file_system \<Rightarrow> string option \<Rightarrow> StatsValue \<Rightarrow> int \<times> StatsValue" where
  "parseIfaceStats fs iface stats =
     (case fopen fs QTAGUID_IFACE_STATS of
        None \<Rightarrow> (- 1, stats)
      | Some fp \<Rightarrow>
          (let stats' = parseIfaceStats_loop iface (file_bytes fp) stats in
           if fclose fp \<noteq> 0 then (- 1, stats') else (0, stats')))"

subsection \<open>Uid table\<close>

text \<open>
  The format string of \<^verbatim>\<open>parseUidStats\<close>, after the macros are expanded:
  \<^verbatim>\<open>%u %31s 0x%llx %u %u %llu %llu %llu %llu\<close>
\<close>

definition uid_stat_format :: "directive list" where
  "uid_stat_format =
     [Conv_u32, Space, Conv_s 31, Space, Ordinary CHR ''0'', Ordinary CHR ''x'', Conv_x64,
      Space, Conv_u32, Space, Conv_u32,
      Space, Conv_u64, Space, Conv_u64, Space, Conv_u64, Space, Conv_u64]"

text \<open>
  The nine local variables \<^verbatim>\<open>sscanf\<close> assigns. The loop reads them only when all
  nine were assigned (\<open>uid_shape\<close> below gives their shape).
\<close>

record uid_vars =
  idx :: uint32_t
  uid_iface :: string
  tag :: uint64_t
  cur_uid :: uint32_t
  set_id :: uint32_t
  uid_rxBytes :: uint64_t
  uid_rxPackets :: uint64_t
  uid_txBytes :: uint64_t
  uid_txPackets :: uint64_t

fun uid_vars_of :: "arg list \<Rightarrow> uid_vars option" where
  "uid_vars_of [Arg_u32 i, Arg_s n, Arg_u64 t, Arg_u32 u, Arg_u32 s,
                Arg_u64 a, Arg_u64 b, Arg_u64 c, Arg_u64 d] =
     Some \<lparr>idx = i, uid_iface = n, tag = t, cur_uid = u, set_id = s,
           uid_rxBytes = a, uid_rxPackets = b, uid_txBytes = c, uid_txPackets = d\<rparr>"
| "uid_vars_of _ = None"

definition parseUidStats_line :: "uint32_t \<Rightarrow> string \<Rightarrow> StatsValue \<Rightarrow> StatsValue" where
  "parseUidStats_line uid buffer stats =
     (case sscanf buffer uid_stat_format of (matched, args) \<Rightarrow>
        if matched = 9 then
          (case uid_vars_of args of
             None \<Rightarrow> stats
           | Some v \<Rightarrow>
               if uid = cur_uid v \<and> tag v = 0
               then stats\<lparr>rxBytes := rxBytes stats + uid_rxBytes v,
                          rxPackets := rxPackets stats + uid_rxPackets v,
                          txBytes := txBytes stats + uid_txBytes v,
                          txPackets := txPackets stats + uid_txPackets v\<rparr>
               else stats)
        else stats)"

function parseUidStats_loop :: "uint32_t \<Rightarrow> string \<Rightarrow> StatsValue \<Rightarrow> StatsValue" where
  "parseUidStats_loop uid fp stats =
     (case fgets 384 fp of
        None \<Rightarrow> stats
      | Some (buffer, fp') \<Rightarrow>
          parseUidStats_loop uid fp' (parseUidStats_line uid buffer stats))"
  by pat_completeness auto
termination
  by (relation "measure (\<lambda>(uid, fp, stats). length fp)") (auto dest: fgets_shorter)

declare parseUidStats_loop.simps [simp del]

definition parseUidStats :: "file_system \<Rightarrow> uint32_t \<Rightarrow> StatsValue \<Rightarrow> int \<times> StatsValue" where
  "parseUidStats fs uid stats =
     (case fopen fs QTAGUID_UID_STATS of
        None \<Rightarrow> (- 1, stats)
      | Some fp \<Rightarrow>
          (let stats' = parseUidStats_loop uid (file_bytes fp) stats in
           if fclose fp \<noteq> 0 then (- 1, stats') else (0, stats')))"

section \<open>Stats query dispatcher\<close>

text \<open>
  The primary source (\<^verbatim>\<open>netdbpf/BpfNetworkStats.h\<close>) is an external collaborator:
  the three functions it exports are parameters. Each receives a pointer to the
  caller's record, so it returns its \<^verbatim>\<open>int\<close> result together with the record as it
  leaves it. The environment of a native call is these three functions and the proc
  file system.
\<close>

record environment =
  bpfGetIfaceStats :: "string option \<Rightarrow> StatsValue \<Rightarrow> int \<times> StatsValue"
  bpfGetIfIndexStats :: "jint \<Rightarrow> StatsValue \<Rightarrow> int \<times> StatsValue"
  bpfGetUidStats :: "uint32_t \<Rightarrow> StatsValue \<Rightarrow> int \<times> StatsValue"
  proc_fs :: file_system

text \<open>
  Each native method returns its \<^verbatim>\<open>jlong\<close> together with the calls it made to the
  primary source and to the legacy parsers, in order.
\<close>

datatype call =
    Call_bpfGetIfaceStats "string option"
  | Call_bpfGetIfIndexStats jint
  | Call_bpfGetUidStats uint32_t
  | Call_parseIfaceStats "string option"
  | Call_parseUidStats uint32_t

text \<open>The conversion of a \<^verbatim>\<open>jint\<close> argument to the \<^verbatim>\<open>uint32_t\<close> (\<^verbatim>\<open>uid_t\<close>) parameter.\<close>

definition uint32_of_jint :: "jint \<Rightarrow> uint32_t" where
  "uint32_of_jint i = word_of_int (sint i)"

definition nativeGetTotalStat :: "environment \<Rightarrow> jint \<Rightarrow> jlong \<times> call list" where
  "nativeGetTotalStat env type =
     (case bpfGetIfaceStats env None zero_stats of (rc, stats) \<Rightarrow>
        if rc = 0 then (getStatsType stats type, [Call_bpfGetIfaceStats None])
        else
          (case parseIfaceStats (proc_fs env) None stats of (rc', stats') \<Rightarrow>
             if rc' = 0
             then (getStatsType stats' type, [Call_bpfGetIfaceStats None, Call_parseIfaceStats None])
             else (UNKNOWN, [Call_bpfGetIfaceStats None, Call_parseIfaceStats None])))"

text \<open>
  \<open>iface8\<close> is \<^verbatim>\<open>iface8.c_str()\<close>: \<open>None\<close> is the \<^verbatim>\<open>NULL\<close> that \<^verbatim>\<open>ScopedUtfChars\<close>
  holds for a null \<^verbatim>\<open>jstring\<close>.
\<close>

definition nativeGetIfaceStat :: "environment \<Rightarrow> string option \<Rightarrow> jint \<Rightarrow> jlong \<times> call list" where
  "nativeGetIfaceStat env iface8 type =
     (case iface8 of
        None \<Rightarrow> (UNKNOWN, [])
      | Some name \<Rightarrow>
          (case bpfGetIfaceStats env (Some name) zero_stats of (rc, stats) \<Rightarrow>
             if rc = 0 then (getStatsType stats type, [Call_bpfGetIfaceStats (Some name)])
             else
               (case parseIfaceStats (proc_fs env) (Some name) stats of (rc', stats') \<Rightarrow>
                  if rc' = 0
                  then (getStatsType stats' type,
                        [Call_bpfGetIfaceStats (Some name), Call_parseIfaceStats (Some name)])
                  else (UNKNOWN,
                        [Call_bpfGetIfaceStats (Some name), Call_parseIfaceStats (Some name)]))))"

definition nativeGetIfIndexStat :: "environment \<Rightarrow> jint \<Rightarrow> jint \<Rightarrow> jlong \<times> call list" where
  "nativeGetIfIndexStat env ifindex type =
     (case bpfGetIfIndexStats env ifindex zero_stats of (rc, stats) \<Rightarrow>
        if rc = 0 then (getStatsType stats type, [Call_bpfGetIfIndexStats ifindex])
        else (UNKNOWN, [Call_bpfGetIfIndexStats ifindex]))"

definition nativeGetUidStat :: "environment \<Rightarrow> jint \<Rightarrow> jint \<Rightarrow> jlong \<times> call list" where
  "nativeGetUidStat env uid type =
     (case bpfGetUidStats env (uint32_of_jint uid) zero_stats of (rc, stats) \<Rightarrow>
        if rc = 0 then (getStatsType stats type, [Call_bpfGetUidStats (uint32_of_jint uid)])
        else
          (case parseUidStats (proc_fs env) (uint32_of_jint uid) stats of (rc', stats') \<Rightarrow>
             if rc' = 0
             then (getStatsType stats' type,
                   [Call_bpfGetUidStats (uint32_of_jint uid), Call_parseUidStats (uint32_of_jint uid)])
             else (UNKNOWN,
                   [Call_bpfGetUidStats (uint32_of_jint uid), Call_parseUidStats (uint32_of_jint uid)])))"

section \<open>Vocabulary of the properties\<close>

text \<open>
  The lines of a table: the buffers that the successive calls
  \<^verbatim>\<open>fgets(buffer, sizeof(buffer), fp)\<close> of a parser's loop store, with
  \<^verbatim>\<open>sizeof(buffer) = 384\<close>.
\<close>

function table_lines :: "string \<Rightarrow> string list" where
  "table_lines fp =
     (case fgets 384 fp of
        None \<Rightarrow> []
      | Some (buffer, fp') \<Rightarrow> buffer # table_lines fp')"
  by pat_completeness auto
termination
  by (relation "measure length") (auto dest: fgets_shorter)

declare table_lines.simps [simp del]

text \<open>
  A well-formed line of the interface table: \<^verbatim>\<open>sscanf\<close> assigned at least five
  arguments; the row is what it assigned to the first five. A well-formed line of the
  uid table: \<^verbatim>\<open>sscanf\<close> assigned all nine.
\<close>

definition iface_row :: "string \<Rightarrow> iface_vars option" where
  "iface_row buffer =
     (case sscanf buffer iface_stat_format of (matched, args) \<Rightarrow>
        if 5 \<le> matched then iface_vars_of args else None)"

definition uid_row :: "string \<Rightarrow> uid_vars option" where
  "uid_row buffer =
     (case sscanf buffer uid_stat_format of (matched, args) \<Rightarrow>
        if matched = 9 then uid_vars_of args else None)"

text \<open>The name token of a line: its first run of characters that are not white space.\<close>

definition name_token :: "string \<Rightarrow> string" where
  "name_token buffer = takeWhile (\<lambda>c. \<not> isspace c) (dropWhile isspace (c_str buffer))"

text \<open>
  A row matches a query name when the name is unset or equals, as a C string, the
  name the row holds.
\<close>

definition iface_matches :: "string option \<Rightarrow> iface_vars \<Rightarrow> bool" where
  "iface_matches iface v = (case iface of None \<Rightarrow> True | Some name \<Rightarrow> c_str name = cur_iface v)"

definition iface_rows :: "string option \<Rightarrow> string list \<Rightarrow> iface_vars list" where
  "iface_rows iface lines = filter (iface_matches iface) (List.map_filter iface_row lines)"

definition uid_matches :: "uint32_t \<Rightarrow> uid_vars \<Rightarrow> bool" where
  "uid_matches uid v \<longleftrightarrow> cur_uid v = uid \<and> tag v = 0"

definition uid_rows :: "uint32_t \<Rightarrow> string list \<Rightarrow> uid_vars list" where
  "uid_rows uid lines = filter (uid_matches uid) (List.map_filter uid_row lines)"

text \<open>
  The rows of the uid table with tag zero whose user id, read as an unsigned number,
  is \<open>n\<close>.
\<close>

definition untagged_rows_of :: "int \<Rightarrow> string list \<Rightarrow> uid_vars list" where
  "untagged_rows_of n lines =
     filter (\<lambda>v. uint (cur_uid v) = n \<and> tag v = 0) (List.map_filter uid_row lines)"


text \<open>
  A parser meets an I/O error on a table when the table cannot be opened or closing
  it fails.
\<close>

definition io_error :: "file_system \<Rightarrow> string \<Rightarrow> bool" where
  "io_error fs path = (case fopen fs path of None \<Rightarrow> True | Some f \<Rightarrow> fclose f \<noteq> 0)"

text \<open>A record with four counters added to it, each modulo \<open>2 ^ 64\<close>.\<close>

definition add_counters ::
  "StatsValue \<Rightarrow> uint64_t \<Rightarrow> uint64_t \<Rightarrow> uint64_t \<Rightarrow> uint64_t \<Rightarrow> StatsValue" where
  "add_counters stats a b c d =
     \<lparr>rxBytes = rxBytes stats + a, rxPackets = rxPackets stats + b,
      txBytes = txBytes stats + c, txPackets = txPackets stats + d\<rparr>"

text \<open>
  What an argument list of \<^verbatim>\<open>sscanf\<close> looks like: the arguments assigned follow the
  assigning conversions of the format, in order.
\<close>

fun assigns :: "directive \<Rightarrow> arg \<Rightarrow> bool" where
  "assigns (Conv_s w) (Arg_s s) = (length s \<le> w)"
| "assigns Conv_u64 (Arg_u64 v) = True"
| "assigns Conv_x64 (Arg_u64 v) = True"
| "assigns Conv_u32 (Arg_u32 v) = True"
| "assigns _ _ = False"

fun assigning :: "directive \<Rightarrow> bool" where
  "assigning Space = False"
| "assigning (Ordinary c) = False"
| "assigning Skip_u = False"
| "assigning _ = True"

definition shape_ok :: "directive list \<Rightarrow> arg list \<Rightarrow> int \<Rightarrow> arg list \<Rightarrow> bool" where
  "shape_ok ds args m r \<longleftrightarrow>
     (\<exists>new. r = args @ new \<and> list_all2 assigns (take (length new) (filter assigning ds)) new
       \<and> length new \<le> length (filter assigning ds)
       \<and> (m = int (length r) \<or> m = - 1 \<and> r = []))"

subsection \<open>Example tables and environments\<close>

text \<open>
  A proc file system with the two tables, both of which open and close; and an
  environment whose primary source fails for every query and leaves the record as it
  found it.
\<close>

definition proc_tables :: "string \<Rightarrow> string \<Rightarrow> file_system" where
  "proc_tables iface_bytes uid_bytes path =
     (if path = QTAGUID_IFACE_STATS then Some \<lparr>file_bytes = iface_bytes, fclose_result = 0\<rparr>
      else if path = QTAGUID_UID_STATS then Some \<lparr>file_bytes = uid_bytes, fclose_result = 0\<rparr>
      else None)"

definition legacy_env :: "file_system \<Rightarrow> environment" where
  "legacy_env fs =
     \<lparr>bpfGetIfaceStats = (\<lambda>iface stats. (- 1, stats)),
      bpfGetIfIndexStats = (\<lambda>ifindex stats. (- 1, stats)),
      bpfGetUidStats = (\<lambda>uid stats. (- 1, stats)),
      proc_fs = fs\<rparr>"

text \<open>An environment whose primary source answers every query with the record \<open>r\<close>.\<close>

definition primary_env :: "StatsValue \<Rightarrow> file_system \<Rightarrow> environment" where
  "primary_env r fs =
     \<lparr>bpfGetIfaceStats = (\<lambda>iface stats. (0, r)),
      bpfGetIfIndexStats = (\<lambda>ifindex stats. (0, r)),
      bpfGetUidStats = (\<lambda>uid stats. (0, r)),
      proc_fs = fs\<rparr>"

text \<open>
  Two rows for \<^verbatim>\<open>wlan0\<close> around a malformed line, and two rows for uid 1000, one of
  them tagged.
\<close>

definition wlan0_table :: string where
  "wlan0_table = ''wlan0 100 5 200 10
wlan0 notanumber
wlan0 50 2 0 0
''"

definition uid_table :: string where
  "uid_table = ''2 wlan0 0x0 1000 0 10 1 20 2
3 wlan0 0x5 1000 0 999 9 999 9
''"

text \<open>Two rows whose received bytes add up to \<open>2 ^ 64\<close>.\<close>

definition overflow_table :: string where
  "overflow_table = ''a 9223372036854775808 1 1 1
b 9223372036854775808 1 1 1
''"

text \<open>A row for the user id \<open>2 ^ 32 - 1\<close>, and the uid table without its tagged row.\<close>

definition minus_one_table :: string where
  "minus_one_table = ''2 wlan0 0x0 4294967295 0 10 1 20 2
''"

definition untagged_table :: string where
  "untagged_table = ''2 wlan0 0x0 1000 0 10 1 20 2
''"

text \<open>
  A uid table with a row for another user, a tagged row for the user id
  \<open>2 ^ 32 - 1\<close> and an untagged row for it.
\<close>

definition mixed_uid_table :: string where
  "mixed_uid_table = ''2 wlan0 0x0 1000 0 5 1 6 1
3 wlan0 0x7 4294967295 0 999 9 999 9
4 wlan0 0x0 4294967295 0 10 1 20 2
''"

text \<open>A proc file system whose tables open and read, and fail to close.\<close>

definition close_fails :: file_system where
  "close_fails path = Some \<lparr>file_bytes = wlan0_table, fclose_result = - 1\<rparr>"

text \<open>
  A query name of 31 characters, and two lines whose name token is that name followed
  by one more character: a letter, and a digit.
\<close>

definition name31 :: string where
  "name31 = ''aaaaaaaaaaaaaaaaaaaaaaaaaaaaaaa''"

definition name32 :: string where
  "name32 = ''aaaaaaaaaaaaaaaaaaaaaaaaaaaaaaab''"

definition long_name_line :: string where
  "long_name_line = ''aaaaaaaaaaaaaaaaaaaaaaaaaaaaaaab 1 2 3 4
''"

definition digit_name_line :: string where
  "digit_name_line = ''aaaaaaaaaaaaaaaaaaaaaaaaaaaaaaa7 1 2 3 4
''"

text \<open>
  An environment whose primary source adds 7 received bytes to the record and then
  fails, as a source does that accumulates entries into the caller's record and stops
  at an entry it cannot read.
\<close>

definition leaky_env :: "file_system \<Rightarrow> environment" where
  "leaky_env fs =
     \<lparr>bpfGetIfaceStats = (\<lambda>iface stats. (- 5, stats\<lparr>rxBytes := rxBytes stats + 7\<rparr>)),
      bpfGetIfIndexStats = (\<lambda>ifindex stats. (- 5, stats\<lparr>rxBytes := rxBytes stats + 7\<rparr>)),
      bpfGetUidStats = (\<lambda>uid stats. (- 5, stats\<lparr>rxBytes := rxBytes stats + 7\<rparr>)),
      proc_fs = fs\<rparr>"

section \<open>Facts about the model\<close>

subsection \<open>The loops as folds over the lines\<close>

lemma parseIfaceStats_loop_fold:
  "parseIfaceStats_loop iface fp stats = fold (parseIfaceStats_line iface) (table_lines fp) stats"
proof (induction iface fp stats rule: parseIfaceStats_loop.induct)
  case (1 iface fp stats)
  show ?case
  proof (cases "fgets 384 fp")
    case None
    then show ?thesis
      by (subst parseIfaceStats_loop.simps, subst table_lines.simps) simp
  next
    case (Some p)
    obtain buffer fp' where p: "p = (buffer, fp')" by (cases p)
    from Some p have f: "fgets 384 fp = Some (buffer, fp')" by simp
    from "1.IH" [OF f refl] f show ?thesis
      by (subst parseIfaceStats_loop.simps, subst table_lines.simps) simp
  qed
qed

lemma parseUidStats_loop_fold:
  "parseUidStats_loop uid fp stats = fold (parseUidStats_line uid) (table_lines fp) stats"
proof (induction uid fp stats rule: parseUidStats_loop.induct)
  case (1 uid fp stats)
  show ?case
  proof (cases "fgets 384 fp")
    case None
    then show ?thesis
      by (subst parseUidStats_loop.simps, subst table_lines.simps) simp
  next
    case (Some p)
    obtain buffer fp' where p: "p = (buffer, fp')" by (cases p)
    from Some p have f: "fgets 384 fp = Some (buffer, fp')" by simp
    from "1.IH" [OF f refl] f show ?thesis
      by (subst parseUidStats_loop.simps, subst table_lines.simps) simp
  qed
qed

subsection \<open>The arguments \<^verbatim>\<open>sscanf\<close> assigns\<close>

lemma shape_ok_failure:
  "shape_ok ds args (fst (input_failure args)) (snd (input_failure args))"
  "shape_ok ds args (fst (matching_failure args)) (snd (matching_failure args))"
  by (simp_all add: shape_ok_def input_failure_def matching_failure_def)

lemma shape_ok_skip:
  "\<not> assigning d \<Longrightarrow> shape_ok ds args m r \<Longrightarrow> shape_ok (d # ds) args m r"
  by (simp add: shape_ok_def)

lemma shape_ok_assign:
  assumes "assigning d" "assigns d a" "shape_ok ds (args @ [a]) m r"
  shows "shape_ok (d # ds) args m r"
proof -
  from assms(3) obtain new where new: "r = (args @ [a]) @ new"
    "list_all2 assigns (take (length new) (filter assigning ds)) new"
    "length new \<le> length (filter assigning ds)"
    "m = int (length r) \<or> m = - 1 \<and> r = []"
    unfolding shape_ok_def by blast
  with assms(1,2) show ?thesis
    unfolding shape_ok_def by (intro exI [of _ "a # new"]) simp
qed

lemma shape_ok_conv:
  "length s \<le> w \<Longrightarrow> shape_ok ds (args @ [Arg_s s]) m r \<Longrightarrow> shape_ok (Conv_s w # ds) args m r"
  "shape_ok ds (args @ [Arg_u64 v]) m r \<Longrightarrow> shape_ok (Conv_u64 # ds) args m r"
  "shape_ok ds (args @ [Arg_u64 v]) m r \<Longrightarrow> shape_ok (Conv_x64 # ds) args m r"
  "shape_ok ds (args @ [Arg_u32 u]) m r \<Longrightarrow> shape_ok (Conv_u32 # ds) args m r"
  by (erule shape_ok_assign [rotated 2]; simp)+

lemma sscanf_run_shape:
  "shape_ok ds args (fst (sscanf_run ds inp args)) (snd (sscanf_run ds inp args))"
proof (induction ds inp args rule: sscanf_run.induct)
  case (1 inp args)
  then show ?case by (simp add: shape_ok_def)
next
  case (2 ds inp args)
  then show ?case by (simp add: shape_ok_skip)
next
  case (3 c ds inp args)
  then show ?case
    by (auto simp: shape_ok_failure shape_ok_skip split: list.splits)
next
  case (4 w ds inp args)
  let ?inp1 = "dropWhile isspace inp"
  let ?tok = "takeWhile (\<lambda>c. \<not> isspace c) (take w ?inp1)"
  show ?case
  proof (cases "?inp1 = []")
    case True
    then show ?thesis by (simp add: shape_ok_failure)
  next
    case False
    have len: "length ?tok \<le> w"
      by (rule order_trans [OF length_takeWhile_le]) simp
    from 4 [OF refl False refl]
    have "shape_ok (Conv_s w # ds) args
            (fst (sscanf_run ds (drop (length ?tok) ?inp1) (args @ [Arg_s ?tok])))
            (snd (sscanf_run ds (drop (length ?tok) ?inp1) (args @ [Arg_s ?tok])))"
      by (rule shape_ok_conv(1) [OF len])
    with False show ?thesis by (simp add: Let_def shape_ok_failure)
  qed
next
  case (5 ds inp args)
  let ?inp1 = "dropWhile isspace inp"
  show ?case
  proof (cases "?inp1 = []")
    case True
    then show ?thesis by (simp add: shape_ok_failure)
  next
    case False
    show ?thesis
    proof (cases "scan_uint 10 ?inp1")
      case None
      with False show ?thesis by (simp add: shape_ok_failure)
    next
      case (Some p)
      obtain v r where p: "p = (v, r)" by (cases p)
      from Some p have sc: "scan_uint 10 ?inp1 = Some (v, r)" by simp
      from "5.IH" [OF refl False sc refl]
      have "shape_ok (Conv_u64 # ds) args (fst (sscanf_run ds r (args @ [Arg_u64 v])))
              (snd (sscanf_run ds r (args @ [Arg_u64 v])))"
        by (rule shape_ok_conv)
      with False sc show ?thesis by (simp add: shape_ok_failure)
    qed
  qed
next
  case (6 ds inp args)
  let ?inp1 = "dropWhile isspace inp"
  show ?case
  proof (cases "?inp1 = []")
    case True
    then show ?thesis by (simp add: shape_ok_failure)
  next
    case False
    show ?thesis
    proof (cases "scan_uint 16 ?inp1")
      case None
      with False show ?thesis by (simp add: shape_ok_failure)
    next
      case (Some p)
      obtain v r where p: "p = (v, r)" by (cases p)
      from Some p have sc: "scan_uint 16 ?inp1 = Some (v, r)" by simp
      from "6.IH" [OF refl False sc refl]
      have "shape_ok (Conv_x64 # ds) args (fst (sscanf_run ds r (args @ [Arg_u64 v])))
              (snd (sscanf_run ds r (args @ [Arg_u64 v])))"
        by (rule shape_ok_conv)
      with False sc show ?thesis by (simp add: shape_ok_failure)
    qed
  qed
next
  case (7 ds inp args)
  let ?inp1 = "dropWhile isspace inp"
  show ?case
  proof (cases "?inp1 = []")
    case True
    then show ?thesis by (simp add: shape_ok_failure)
  next
    case False
    show ?thesis
    proof (cases "scan_uint 10 ?inp1")
      case None
      with False show ?thesis by (simp add: shape_ok_failure)
    next
      case (Some p)
      obtain v r where p: "p = (v, r)" by (cases p)
      from Some p have sc: "scan_uint 10 ?inp1 = Some (v, r)" by simp
      from "7.IH" [OF refl False sc refl]
      have "shape_ok (Conv_u32 # ds) args (fst (sscanf_run ds r (args @ [Arg_u32 (ucast v)])))
              (snd (sscanf_run ds r (args @ [Arg_u32 (ucast v)])))"
        by (rule shape_ok_conv)
      with False sc show ?thesis by (simp add: shape_ok_failure)
    qed
  qed
next
  case (8 ds inp args)
  let ?inp1 = "dropWhile isspace inp"
  show ?case
  proof (cases "?inp1 = []")
    case True
    then show ?thesis by (simp add: shape_ok_failure)
  next
    case False
    show ?thesis
    proof (cases "scan_uint 10 ?inp1")
      case None
      with False show ?thesis by (simp add: shape_ok_failure)
    next
      case (Some p)
      obtain v r where p: "p = (v, r)" by (cases p)
      from Some p have sc: "scan_uint 10 ?inp1 = Some (v, r)" by simp
      from 8 [OF refl False sc refl]
      have "shape_ok (Skip_u # ds) args (fst (sscanf_run ds r args)) (snd (sscanf_run ds r args))"
        by (simp add: shape_ok_skip)
      with False sc show ?thesis by (simp add: shape_ok_failure)
    qed
  qed
qed

lemma assigns_inv:
  "assigns (Conv_s w) a \<Longrightarrow> \<exists>n. a = Arg_s n \<and> length n \<le> w"
  "assigns Conv_u64 a \<Longrightarrow> \<exists>v. a = Arg_u64 v"
  "assigns Conv_x64 a \<Longrightarrow> \<exists>v. a = Arg_u64 v"
  "assigns Conv_u32 a \<Longrightarrow> \<exists>v. a = Arg_u32 v"
  by (cases a; simp)+

lemma iface_shape:
  assumes "5 \<le> fst (sscanf buffer iface_stat_format)"
  shows "\<exists>n a b c d rest. snd (sscanf buffer iface_stat_format) =
           Arg_s n # Arg_u64 a # Arg_u64 b # Arg_u64 c # Arg_u64 d # rest \<and> length n \<le> 31"
proof -
  let ?r = "snd (sscanf buffer iface_stat_format)"
  from sscanf_run_shape [where ds = iface_stat_format and inp = "c_str buffer" and args = "[]"]
  have ok: "shape_ok iface_stat_format [] (fst (sscanf buffer iface_stat_format)) ?r"
    by (simp add: sscanf_def)
  with assms have len: "5 \<le> length ?r"
    by (auto simp: shape_ok_def)
  then obtain a1 a2 a3 a4 a5 rest where r: "?r = a1 # a2 # a3 # a4 # a5 # rest"
    by (auto simp: numeral_eq_Suc Suc_le_length_iff)
  from ok r have "assigns (Conv_s 31) a1" "assigns Conv_u64 a2" "assigns Conv_u64 a3"
    "assigns Conv_u64 a4" "assigns Conv_u64 a5"
    by (simp_all add: shape_ok_def iface_stat_format_def)
  then have "\<exists>n. a1 = Arg_s n \<and> length n \<le> 31" "\<exists>a. a2 = Arg_u64 a" "\<exists>b. a3 = Arg_u64 b"
    "\<exists>c. a4 = Arg_u64 c" "\<exists>d. a5 = Arg_u64 d"
    by (blast dest: assigns_inv)+
  with r show ?thesis by auto
qed

subsection \<open>Rows and the loop body\<close>


lemma iface_row_None_iff:
  "iface_row buffer = None \<longleftrightarrow> fst (sscanf buffer iface_stat_format) < 5"
proof (cases "5 \<le> fst (sscanf buffer iface_stat_format)")
  case True
  from iface_shape [OF True] obtain n a b c d rest where
    "snd (sscanf buffer iface_stat_format) =
       Arg_s n # Arg_u64 a # Arg_u64 b # Arg_u64 c # Arg_u64 d # rest"
    by blast
  with True show ?thesis
    by (simp add: iface_row_def case_prod_unfold)
next
  case False
  then show ?thesis
    by (simp add: iface_row_def case_prod_unfold)
qed


lemma takeWhile_take_commute: "takeWhile P (take n xs) = take n (takeWhile P xs)"
proof (induction xs arbitrary: n)
  case Nil
  then show ?case by simp
next
  case (Cons x xs)
  then show ?case by (cases n) simp_all
qed

lemma sscanf_run_Conv_s_first:
  assumes "snd (sscanf_run (Conv_s w # ds) inp []) \<noteq> []"
  shows "\<exists>new. snd (sscanf_run (Conv_s w # ds) inp []) =
           Arg_s (take w (takeWhile (\<lambda>c. \<not> isspace c) (dropWhile isspace inp))) # new"
proof -
  let ?inp1 = "dropWhile isspace inp"
  let ?tok = "takeWhile (\<lambda>c. \<not> isspace c) (take w ?inp1)"
  have "?inp1 = [] \<Longrightarrow> snd (sscanf_run (Conv_s w # ds) inp []) = []"
    by (simp add: input_failure_def del: dropWhile_eq_Nil_conv)
  with assms have ne: "?inp1 \<noteq> []" by blast
  then have eq: "sscanf_run (Conv_s w # ds) inp [] =
      sscanf_run ds (drop (length ?tok) ?inp1) ([] @ [Arg_s ?tok])"
    by (simp add: Let_def del: dropWhile_eq_Nil_conv)
  from sscanf_run_shape [where ds = ds and inp = "drop (length ?tok) ?inp1" and args = "[] @ [Arg_s ?tok]"]
  obtain new where "snd (sscanf_run ds (drop (length ?tok) ?inp1) ([] @ [Arg_s ?tok])) =
      ([] @ [Arg_s ?tok]) @ new"
    unfolding shape_ok_def by blast
  with eq show ?thesis
    by (simp add: takeWhile_take_commute)
qed

lemma cur_iface_token:
  assumes "iface_row buffer = Some v"
  shows "cur_iface v = take 31 (name_token buffer)"
proof -
  let ?r = "snd (sscanf buffer iface_stat_format)"
  from assms have five: "5 \<le> fst (sscanf buffer iface_stat_format)" and v: "iface_vars_of ?r = Some v"
    by (auto simp: iface_row_def case_prod_unfold split: if_splits)
  from iface_shape [OF five] obtain n a b c d rest where
    r: "?r = Arg_s n # Arg_u64 a # Arg_u64 b # Arg_u64 c # Arg_u64 d # rest"
    by blast
  then have "snd (sscanf_run (Conv_s 31 # tl iface_stat_format) (c_str buffer) []) \<noteq> []"
    by (simp add: sscanf_def iface_stat_format_def)
  from sscanf_run_Conv_s_first [OF this] r
  have "n = take 31 (name_token buffer)"
    by (simp add: sscanf_def iface_stat_format_def name_token_def)
  with v r show ?thesis by auto
qed

lemma c_str_no_NUL: "x \<in> set (c_str s) \<Longrightarrow> x \<noteq> CHR 0x00"
  unfolding c_str_def by (drule set_takeWhileD) simp

lemma c_str_id: "(\<And>x. x \<in> set xs \<Longrightarrow> x \<noteq> CHR 0x00) \<Longrightarrow> c_str xs = xs"
  unfolding c_str_def by (simp add: takeWhile_eq_all_conv)

lemma name_token_no_NUL: "c_str (take n (name_token buffer)) = take n (name_token buffer)"
proof (rule c_str_id)
  fix x
  assume "x \<in> set (take n (name_token buffer))"
  then have "x \<in> set (name_token buffer)"
    by (rule in_set_takeD)
  then have "x \<in> set (dropWhile isspace (c_str buffer))"
    unfolding name_token_def by (rule set_takeWhileD [THEN conjunct1])
  then have "x \<in> set (c_str buffer)"
    by (rule set_dropWhileD)
  then show "x \<noteq> CHR 0x00"
    by (rule c_str_no_NUL)
qed

lemma parseIfaceStats_line_eq:
  "parseIfaceStats_line iface buffer stats =
     (case iface_row buffer of
        None \<Rightarrow> stats
      | Some v \<Rightarrow>
          if iface_matches iface v
          then add_counters stats (if_rxBytes v) (if_rxPackets v) (if_txBytes v) (if_txPackets v)
          else stats)"
proof (cases "iface_row buffer")
  case None
  then show ?thesis
    by (auto simp: parseIfaceStats_line_def iface_row_def split: prod.splits if_splits)
next
  case (Some v)
  from cur_iface_token [OF Some] have "c_str (cur_iface v) = cur_iface v"
    by (simp add: name_token_no_NUL)
  with Some show ?thesis
    by (auto simp: parseIfaceStats_line_def iface_row_def iface_matches_def strcmp_def
        add_counters_def split: prod.splits if_splits option.splits)
qed

lemma parseUidStats_line_eq:
  "parseUidStats_line uid buffer stats =
     (case uid_row buffer of
        None \<Rightarrow> stats
      | Some v \<Rightarrow>
          if uid_matches uid v
          then add_counters stats (uid_rxBytes v) (uid_rxPackets v) (uid_txBytes v) (uid_txPackets v)
          else stats)"
  by (auto simp: parseUidStats_line_def uid_row_def uid_matches_def add_counters_def
      split: prod.splits if_splits option.splits)

subsection \<open>The loops as sums over the matching rows\<close>

lemma unat_add_sum_list:
  "unat (a + sum_list ws :: uint64_t) = (unat a + sum_list (map unat ws)) mod 2 ^ 64"
proof (induction ws arbitrary: a)
  case Nil
  have "unat a < 2 ^ 64"
    by (rule order_less_le_trans [OF unsigned_less]) simp
  then show ?case by simp
next
  case (Cons w ws)
  have "unat (a + (w + sum_list ws)) = unat ((a + w) + sum_list ws)"
    by (simp add: add.assoc)
  also have "\<dots> = (unat (a + w) + sum_list (map unat ws)) mod 2 ^ 64"
    by (rule Cons.IH)
  also have "\<dots> = ((unat a + unat w) mod 2 ^ 64 + sum_list (map unat ws)) mod 2 ^ 64"
    by (simp add: unat_word_ariths)
  also have "\<dots> = (unat a + unat w + sum_list (map unat ws)) mod 2 ^ 64"
    by (rule mod_add_left_eq)
  finally show ?case by (simp add: add.assoc)
qed

lemma iface_rows_Nil: "iface_rows iface [] = []"
  by (simp add: iface_rows_def )

lemma iface_rows_Cons:
  "iface_rows iface (b # bs) =
     (case iface_row b of
        None \<Rightarrow> iface_rows iface bs
      | Some v \<Rightarrow> if iface_matches iface v then v # iface_rows iface bs else iface_rows iface bs)"
  by (simp add: iface_rows_def  split: option.splits)

lemma uid_rows_Nil: "uid_rows uid [] = []"
  by (simp add: uid_rows_def )

lemma uid_rows_Cons:
  "uid_rows uid (b # bs) =
     (case uid_row b of
        None \<Rightarrow> uid_rows uid bs
      | Some v \<Rightarrow> if uid_matches uid v then v # uid_rows uid bs else uid_rows uid bs)"
  by (simp add: uid_rows_def  split: option.splits)

lemma fold_iface_lines:
  "fold (parseIfaceStats_line iface) lines stats =
     add_counters stats
       (sum_list (map if_rxBytes (iface_rows iface lines)))
       (sum_list (map if_rxPackets (iface_rows iface lines)))
       (sum_list (map if_txBytes (iface_rows iface lines)))
       (sum_list (map if_txPackets (iface_rows iface lines)))"
proof (induction lines arbitrary: stats)
  case Nil
  then show ?case by (simp add: iface_rows_Nil add_counters_def)
next
  case (Cons b bs)
  have "fold (parseIfaceStats_line iface) (b # bs) stats =
      fold (parseIfaceStats_line iface) bs (parseIfaceStats_line iface b stats)"
    by simp
  also note Cons.IH
  finally show ?case
    by (simp add: parseIfaceStats_line_eq [of iface b stats] iface_rows_Cons add_counters_def add.assoc
        split: option.splits)
qed

lemma fold_uid_lines:
  "fold (parseUidStats_line uid) lines stats =
     add_counters stats
       (sum_list (map uid_rxBytes (uid_rows uid lines)))
       (sum_list (map uid_rxPackets (uid_rows uid lines)))
       (sum_list (map uid_txBytes (uid_rows uid lines)))
       (sum_list (map uid_txPackets (uid_rows uid lines)))"
proof (induction lines arbitrary: stats)
  case Nil
  then show ?case by (simp add: uid_rows_Nil add_counters_def)
next
  case (Cons b bs)
  have "fold (parseUidStats_line uid) (b # bs) stats =
      fold (parseUidStats_line uid) bs (parseUidStats_line uid b stats)"
    by simp
  also note Cons.IH
  finally show ?case
    by (simp add: parseUidStats_line_eq [of uid b stats] uid_rows_Cons add_counters_def add.assoc
        split: option.splits)
qed

lemma parseIfaceStats_opened:
  "fopen fs QTAGUID_IFACE_STATS = Some f \<Longrightarrow>
     snd (parseIfaceStats fs iface stats) =
       fold (parseIfaceStats_line iface) (table_lines (file_bytes f)) stats"
  by (simp add: parseIfaceStats_def parseIfaceStats_loop_fold Let_def)

lemma parseUidStats_opened:
  "fopen fs QTAGUID_UID_STATS = Some f \<Longrightarrow>
     snd (parseUidStats fs uid stats) =
       fold (parseUidStats_line uid) (table_lines (file_bytes f)) stats"
  by (simp add: parseUidStats_def parseUidStats_loop_fold Let_def)

subsection \<open>Evaluating the model on a concrete table\<close>

lemma table_lines_Nil: "table_lines [] = []"
  by (subst table_lines.simps) (simp add: fgets_def)

lemma table_lines_Cons:
  "table_lines (c # s) = (case fgets_chunk 383 (c # s) of (l, r) \<Rightarrow> l # table_lines r)"
  by (subst table_lines.simps) (simp add: fgets_def)

lemma fgets_chunk_Nil: "fgets_chunk n [] = ([], [])"
  by (cases n) simp_all

lemma fgets_chunk_Cons:
  "fgets_chunk n (c # s) =
     (if n = 0 then ([], c # s)
      else if c = CHR 0x0A then ([c], s)
      else (case fgets_chunk (n - 1) s of (l, r) \<Rightarrow> (c # l, r)))"
  by (cases n) simp_all

lemmas table_eval = table_lines_Nil table_lines_Cons fgets_chunk_Nil fgets_chunk_Cons

lemmas scan_eval = sscanf_def c_str_def isspace_def scan_uint_def scan_sign_def scan_prefix_def
  is_digit_def digit_of_def digits_value_def to_uintmax_def input_failure_def matching_failure_def
  iface_stat_format_def uid_stat_format_def

lemmas parse_eval = parseIfaceStats_def parseUidStats_def parseIfaceStats_loop_fold
  parseUidStats_loop_fold parseIfaceStats_line_def parseUidStats_line_def fopen_def fclose_def
  strcmp_def QTAGUID_IFACE_STATS_def QTAGUID_UID_STATS_def

lemma uint32_of_jint_bits: "uint32_of_jint i = i"
  by (simp add: uint32_of_jint_def)

lemma wlan0_eval:
  "parseIfaceStats (proc_tables wlan0_table uid_table) (Some ''wlan0'') zero_stats =
     (0, \<lparr>rxBytes = 150, rxPackets = 7, txBytes = 200, txPackets = 10\<rparr>)"
  "parseIfaceStats (proc_tables wlan0_table uid_table) None zero_stats =
     (0, \<lparr>rxBytes = 150, rxPackets = 7, txBytes = 200, txPackets = 10\<rparr>)"
  by (simp_all add: proc_tables_def parse_eval wlan0_table_def table_eval scan_eval zero_stats_def)

lemma uid_eval:
  "parseUidStats (proc_tables wlan0_table uid_table) 1000 zero_stats =
     (0, \<lparr>rxBytes = 10, rxPackets = 1, txBytes = 20, txPackets = 2\<rparr>)"
  by (simp add: proc_tables_def parse_eval uid_table_def table_eval scan_eval zero_stats_def)

lemmas rows_eval = iface_rows_Nil iface_rows_Cons uid_rows_Nil uid_rows_Cons iface_row_def
  uid_row_def iface_matches_def uid_matches_def

lemma wlan0_rows:
  "iface_rows (Some ''wlan0'') (table_lines wlan0_table) =
     [\<lparr>cur_iface = ''wlan0'', if_rxBytes = 100, if_rxPackets = 5, if_txBytes = 200, if_txPackets = 10\<rparr>,
      \<lparr>cur_iface = ''wlan0'', if_rxBytes = 50, if_rxPackets = 2, if_txBytes = 0, if_txPackets = 0\<rparr>]"
  by (simp add: wlan0_table_def table_eval rows_eval scan_eval)



lemma parseUidStats_eq:
  "fopen fs QTAGUID_UID_STATS = Some f \<Longrightarrow>
     parseUidStats fs uid stats =
       (if fclose f \<noteq> 0 then - 1 else 0,
        fold (parseUidStats_line uid) (table_lines (file_bytes f)) stats)"
  by (simp add: parseUidStats_def parseUidStats_loop_fold Let_def)

lemma parseIfaceStats_eq:
  "fopen fs QTAGUID_IFACE_STATS = Some f \<Longrightarrow>
     parseIfaceStats fs iface stats =
       (if fclose f \<noteq> 0 then - 1 else 0,
        fold (parseIfaceStats_line iface) (table_lines (file_bytes f)) stats)"
  by (simp add: parseIfaceStats_def parseIfaceStats_loop_fold Let_def)

lemma sint_neg_uint:
  fixes w :: "32 word"
  assumes "sint w < 0"
  shows "uint w = 2 ^ 32 + sint w"
proof -
  have lo: "- (2 ^ 31) \<le> sint w"
    using sint_ge [of w] by simp
  have "uint w = sint w mod 2 ^ 32"
    using uint_sint [of w] by (simp add: take_bit_eq_mod)
  also have "\<dots> = (sint w + 2 ^ 32) mod 2 ^ 32"
    by simp
  also have "\<dots> = sint w + 2 ^ 32"
    using lo assms by (intro mod_pos_pos_trivial) simp_all
  finally show ?thesis by simp
qed


lemma parseIfaceStats_rc:
  "fst (parseIfaceStats fs iface stats) = (if io_error fs QTAGUID_IFACE_STATS then - 1 else 0)"
  by (simp add: parseIfaceStats_def io_error_def Let_def split: option.splits)

lemma parseUidStats_rc:
  "fst (parseUidStats fs uid stats) = (if io_error fs QTAGUID_UID_STATS then - 1 else 0)"
  by (simp add: parseUidStats_def io_error_def Let_def split: option.splits)

lemma scan_uint_no_digit:
  "\<not> is_digit 10 c \<Longrightarrow> c \<noteq> CHR ''+'' \<Longrightarrow> c \<noteq> CHR ''-'' \<Longrightarrow> scan_uint 10 (c # r) = None"
  by (simp add: scan_uint_def scan_sign_def scan_prefix_def split: list.splits)

lemma long_token_rest:
  assumes "31 < length (name_token buffer)"
  shows "\<exists>r. drop 31 (dropWhile isspace (c_str buffer)) = name_token buffer ! 31 # r"
    and "\<not> isspace (name_token buffer ! 31)"
    and "length (take 31 (name_token buffer)) = 31"
proof -
  let ?inp1 = "dropWhile isspace (c_str buffer)"
  have len: "31 < length ?inp1"
    using assms length_takeWhile_le [of "\<lambda>c. \<not> isspace c" ?inp1]
    by (simp add: name_token_def)
  have nth: "?inp1 ! 31 = name_token buffer ! 31"
    using assms by (simp add: name_token_def takeWhile_nth)
  from len have "drop 31 ?inp1 = ?inp1 ! 31 # drop (Suc 31) ?inp1"
    by (rule Cons_nth_drop_Suc [symmetric])
  with nth show "\<exists>r. drop 31 ?inp1 = name_token buffer ! 31 # r"
    by simp
  from assms have "name_token buffer ! 31 \<in> set (name_token buffer)"
    by (rule nth_mem)
  then show "\<not> isspace (name_token buffer ! 31)"
    unfolding name_token_def by (rule set_takeWhileD [THEN conjunct2])
  from assms show "length (take 31 (name_token buffer)) = 31"
    by simp
qed

lemma long_token_scan:
  assumes "31 < length (name_token buffer)"
    and "\<not> is_digit 10 (name_token buffer ! 31)"
    and "name_token buffer ! 31 \<noteq> CHR ''+''" "name_token buffer ! 31 \<noteq> CHR ''-''"
  shows "fst (sscanf_run (Conv_s 31 # Space # Conv_u64 # ds) (c_str buffer) []) = 1"
proof -
  let ?inp1 = "dropWhile isspace (c_str buffer)"
  let ?c = "name_token buffer ! 31"
  from long_token_rest [OF assms(1)] obtain r where
    r: "drop 31 ?inp1 = ?c # r" and ns: "\<not> isspace ?c"
    and l: "length (take 31 (name_token buffer)) = 31"
    by blast
  from r have ne: "?inp1 \<noteq> []"
    by (metis drop_Nil list.distinct(1))
  let ?tok = "takeWhile (\<lambda>c. \<not> isspace c) (take 31 ?inp1)"
  let ?args = "[] @ [Arg_s ?tok]"
  have tok: "?tok = take 31 (name_token buffer)"
    by (simp add: takeWhile_take_commute name_token_def)
  have s1: "sscanf_run (Conv_s 31 # Space # Conv_u64 # ds) (c_str buffer) [] =
      sscanf_run (Space # Conv_u64 # ds) (drop (length ?tok) ?inp1) ?args"
    using ne by (simp add: Let_def del: dropWhile_eq_Nil_conv)
  have dr: "drop (length ?tok) ?inp1 = ?c # r"
    unfolding tok l by (rule r)
  have s2: "sscanf_run (Space # Conv_u64 # ds) (?c # r) ?args = matching_failure ?args"
    using ns by (simp add: Let_def scan_uint_no_digit [OF assms(2-4)])
  show ?thesis
    unfolding s1 dr s2 by (simp add: matching_failure_def)
qed

lemma long_line_eval:
  "name_token long_name_line = name32"
  "name_token digit_name_line = ''aaaaaaaaaaaaaaaaaaaaaaaaaaaaaaa7''"
  "name_token ''wlan0 100 5 200 10
'' = ''wlan0''"
  by (simp_all add: name_token_def long_name_line_def digit_name_line_def name32_def c_str_def
      isspace_def)

lemma digit_line_row:
  "iface_row digit_name_line =
     Some \<lparr>cur_iface = name31, if_rxBytes = 7, if_rxPackets = 1, if_txBytes = 2, if_txPackets = 3\<rparr>"
  "iface_row ''wlan0 100 5 200 10
'' =
     Some \<lparr>cur_iface = ''wlan0'', if_rxBytes = 100, if_rxPackets = 5, if_txBytes = 200,
           if_txPackets = 10\<rparr>"
  by (simp_all add: digit_name_line_def name31_def iface_row_def scan_eval)

lemma nativeGetUidStat_fallback:
  assumes "bpfGetUidStats env (uint32_of_jint uid) zero_stats = (rc, r)" "rc \<noteq> 0"
    and "fopen (proc_fs env) QTAGUID_UID_STATS = Some f" "fclose f = 0"
  shows "nativeGetUidStat env uid type =
     (getStatsType
        (add_counters r
           (sum_list (map uid_rxBytes (uid_rows (uint32_of_jint uid) (table_lines (file_bytes f)))))
           (sum_list (map uid_rxPackets (uid_rows (uint32_of_jint uid) (table_lines (file_bytes f)))))
           (sum_list (map uid_txBytes (uid_rows (uint32_of_jint uid) (table_lines (file_bytes f)))))
           (sum_list (map uid_txPackets (uid_rows (uint32_of_jint uid) (table_lines (file_bytes f))))))
        type,
      [Call_bpfGetUidStats (uint32_of_jint uid), Call_parseUidStats (uint32_of_jint uid)])"
  using assms
  by (simp add: nativeGetUidStat_def parseUidStats_eq [OF assms(3)] fold_uid_lines)

lemma mixed_rows:
  "untagged_rows_of 4294967295 (table_lines mixed_uid_table) =
     [\<lparr>idx = 4, uid_iface = ''wlan0'', tag = 0, cur_uid = 4294967295, set_id = 0,
       uid_rxBytes = 10, uid_rxPackets = 1, uid_txBytes = 20, uid_txPackets = 2\<rparr>]"
  by (simp add: untagged_rows_of_def mixed_uid_table_def table_eval uid_row_def scan_eval)

section \<open>The counter selector is total and exact\<close>

text \<open>
  C4. \<^verbatim>\<open>getStatsType\<close> is a function of the record and the kind alone. For
  \<^verbatim>\<open>RX_BYTES\<close>, \<^verbatim>\<open>RX_PACKETS\<close>, \<^verbatim>\<open>TX_BYTES\<close> and \<^verbatim>\<open>TX_PACKETS\<close> it returns the field of
  that name; for every other kind it returns \<^verbatim>\<open>UNKNOWN\<close>, which is the largest
  unsigned 64-bit value, \<open>2 ^ 64 - 1\<close>.
\<close>

theorem getStatsType_selects:
  "getStatsType stats RX_BYTES = rxBytes stats \<and>
   getStatsType stats RX_PACKETS = rxPackets stats \<and>
   getStatsType stats TX_BYTES = txBytes stats \<and>
   getStatsType stats TX_PACKETS = txPackets stats \<and>
   (\<forall>type. type \<notin> {RX_BYTES, RX_PACKETS, TX_BYTES, TX_PACKETS}
      \<longrightarrow> getStatsType stats type = UNKNOWN) \<and>
   unat UNKNOWN = 2 ^ 64 - 1 \<and> (\<forall>w :: uint64_t. w \<le> UNKNOWN)"
  by (simp add: getStatsType_def RX_BYTES_def RX_PACKETS_def TX_BYTES_def TX_PACKETS_def
      UNKNOWN_def unsigned_minus_1_eq_mask mask_eq_exp_minus_1)

theorem getStatsType_selects_witness:
  "getStatsType \<lparr>rxBytes = 100, rxPackets = 5, txBytes = 200, txPackets = 10\<rparr> TX_BYTES = 200 \<and>
   getStatsType \<lparr>rxBytes = 100, rxPackets = 5, txBytes = 200, txPackets = 10\<rparr> 7 = UNKNOWN \<and>
   getStatsType \<lparr>rxBytes = 100, rxPackets = 5, txBytes = 200, txPackets = 10\<rparr> (- 1) = UNKNOWN"
proof -
  let ?s = "\<lparr>rxBytes = 100, rxPackets = 5, txBytes = 200, txPackets = 10\<rparr>"
  have k: "(7 :: StatsType) \<notin> {RX_BYTES, RX_PACKETS, TX_BYTES, TX_PACKETS}"
    "(- 1 :: StatsType) \<notin> {RX_BYTES, RX_PACKETS, TX_BYTES, TX_PACKETS}"
    by (simp_all add: RX_BYTES_def RX_PACKETS_def TX_BYTES_def TX_PACKETS_def)
  from getStatsType_selects [of ?s] k show ?thesis by simp
qed

section \<open>The interface-index query has no fallback\<close>

text \<open>
  C7. When \<^verbatim>\<open>bpfGetIfIndexStats\<close> does not return 0, \<^verbatim>\<open>nativeGetIfIndexStat\<close> returns
  \<^verbatim>\<open>UNKNOWN\<close> for every index and every kind. The only call it makes is the one to
  the primary source: neither legacy parser is called, and the proc file system has no
  part in the result.
\<close>

theorem ifindex_no_fallback:
  "fst (bpfGetIfIndexStats env ifindex zero_stats) \<noteq> 0 \<Longrightarrow>
     nativeGetIfIndexStat env ifindex type = (UNKNOWN, [Call_bpfGetIfIndexStats ifindex]) \<and>
     (\<forall>fs. nativeGetIfIndexStat (env\<lparr>proc_fs := fs\<rparr>) ifindex type =
           (UNKNOWN, [Call_bpfGetIfIndexStats ifindex]))"
  by (auto simp: nativeGetIfIndexStat_def split: prod.splits)

theorem ifindex_no_fallback_witness:
  "fst (bpfGetIfIndexStats (legacy_env (proc_tables wlan0_table uid_table)) 7 zero_stats) \<noteq> 0 \<and>
   nativeGetIfIndexStat (legacy_env (proc_tables wlan0_table uid_table)) 7 TX_PACKETS =
     (UNKNOWN, [Call_bpfGetIfIndexStats 7])"
proof -
  have h: "fst (bpfGetIfIndexStats (legacy_env (proc_tables wlan0_table uid_table)) 7 zero_stats) \<noteq> 0"
    by (simp add: legacy_env_def)
  from h ifindex_no_fallback [OF h, of TX_PACKETS] show ?thesis by simp
qed

section \<open>A null interface name short-circuits\<close>

text \<open>
  C8. With a null interface name (\<^verbatim>\<open>iface8.c_str() == NULL\<close>), \<^verbatim>\<open>nativeGetIfaceStat\<close>
  returns \<^verbatim>\<open>UNKNOWN\<close> for every kind, and it has called neither the primary source
  nor the legacy parser.
\<close>

theorem null_iface_short_circuits:
  "nativeGetIfaceStat env None type = (UNKNOWN, [])"
  by (simp add: nativeGetIfaceStat_def)

theorem null_iface_short_circuits_witness:
  "nativeGetIfaceStat (primary_env \<lparr>rxBytes = 1, rxPackets = 2, txBytes = 3, txPackets = 4\<rparr>
      (proc_tables wlan0_table uid_table)) None RX_BYTES = (UNKNOWN, [])"
  by (rule null_iface_short_circuits)

section \<open>The two-tier cascade\<close>

text \<open>
  C3. For the total, the by-interface-name and the by-user-id query: when the primary
  source returns 0, the result is the selected counter of the record it filled, the
  only call is the one to the primary source, and the result is the same whatever the
  proc file system holds. When the primary source fails, the legacy parser is called
  on the record as the primary source left it; if the parser returns 0 the result is
  the selected counter of the parser's record, and if it fails the result is
  \<^verbatim>\<open>UNKNOWN\<close>.
\<close>

theorem dispatcher_cascade:
  "(bpfGetIfaceStats env None zero_stats = (0, r) \<longrightarrow>
      nativeGetTotalStat env type = (getStatsType r type, [Call_bpfGetIfaceStats None]) \<and>
      (\<forall>fs. nativeGetTotalStat (env\<lparr>proc_fs := fs\<rparr>) type = nativeGetTotalStat env type)) \<and>
   (bpfGetIfaceStats env None zero_stats = (rc, r) \<and> rc \<noteq> 0 \<longrightarrow>
      (parseIfaceStats (proc_fs env) None r = (0, r') \<longrightarrow>
         nativeGetTotalStat env type =
           (getStatsType r' type, [Call_bpfGetIfaceStats None, Call_parseIfaceStats None])) \<and>
      (fst (parseIfaceStats (proc_fs env) None r) \<noteq> 0 \<longrightarrow>
         nativeGetTotalStat env type =
           (UNKNOWN, [Call_bpfGetIfaceStats None, Call_parseIfaceStats None]))) \<and>
   (bpfGetIfaceStats env (Some name) zero_stats = (0, r) \<longrightarrow>
      nativeGetIfaceStat env (Some name) type =
        (getStatsType r type, [Call_bpfGetIfaceStats (Some name)]) \<and>
      (\<forall>fs. nativeGetIfaceStat (env\<lparr>proc_fs := fs\<rparr>) (Some name) type =
            nativeGetIfaceStat env (Some name) type)) \<and>
   (bpfGetIfaceStats env (Some name) zero_stats = (rc, r) \<and> rc \<noteq> 0 \<longrightarrow>
      (parseIfaceStats (proc_fs env) (Some name) r = (0, r') \<longrightarrow>
         nativeGetIfaceStat env (Some name) type =
           (getStatsType r' type,
            [Call_bpfGetIfaceStats (Some name), Call_parseIfaceStats (Some name)])) \<and>
      (fst (parseIfaceStats (proc_fs env) (Some name) r) \<noteq> 0 \<longrightarrow>
         nativeGetIfaceStat env (Some name) type =
           (UNKNOWN, [Call_bpfGetIfaceStats (Some name), Call_parseIfaceStats (Some name)]))) \<and>
   (bpfGetUidStats env (uint32_of_jint uid) zero_stats = (0, r) \<longrightarrow>
      nativeGetUidStat env uid type =
        (getStatsType r type, [Call_bpfGetUidStats (uint32_of_jint uid)]) \<and>
      (\<forall>fs. nativeGetUidStat (env\<lparr>proc_fs := fs\<rparr>) uid type = nativeGetUidStat env uid type)) \<and>
   (bpfGetUidStats env (uint32_of_jint uid) zero_stats = (rc, r) \<and> rc \<noteq> 0 \<longrightarrow>
      (parseUidStats (proc_fs env) (uint32_of_jint uid) r = (0, r') \<longrightarrow>
         nativeGetUidStat env uid type =
           (getStatsType r' type,
            [Call_bpfGetUidStats (uint32_of_jint uid), Call_parseUidStats (uint32_of_jint uid)])) \<and>
      (fst (parseUidStats (proc_fs env) (uint32_of_jint uid) r) \<noteq> 0 \<longrightarrow>
         nativeGetUidStat env uid type =
           (UNKNOWN,
            [Call_bpfGetUidStats (uint32_of_jint uid), Call_parseUidStats (uint32_of_jint uid)])))"
  by (simp add: nativeGetTotalStat_def nativeGetIfaceStat_def nativeGetUidStat_def
      split: prod.splits)

theorem dispatcher_cascade_witness:
  "nativeGetTotalStat (primary_env \<lparr>rxBytes = 1, rxPackets = 2, txBytes = 3, txPackets = 4\<rparr>
      (proc_tables wlan0_table uid_table)) TX_BYTES = (3, [Call_bpfGetIfaceStats None]) \<and>
   nativeGetIfaceStat (primary_env \<lparr>rxBytes = 1, rxPackets = 2, txBytes = 3, txPackets = 4\<rparr>
      (proc_tables wlan0_table uid_table)) (Some ''wlan0'') TX_BYTES =
     (3, [Call_bpfGetIfaceStats (Some ''wlan0'')]) \<and>
   nativeGetUidStat (primary_env \<lparr>rxBytes = 1, rxPackets = 2, txBytes = 3, txPackets = 4\<rparr>
      (proc_tables wlan0_table uid_table)) 1000 TX_BYTES = (3, [Call_bpfGetUidStats 1000]) \<and>
   nativeGetTotalStat (legacy_env (proc_tables wlan0_table uid_table)) RX_BYTES =
     (150, [Call_bpfGetIfaceStats None, Call_parseIfaceStats None]) \<and>
   nativeGetIfaceStat (legacy_env (proc_tables wlan0_table uid_table)) (Some ''wlan0'') RX_BYTES =
     (150, [Call_bpfGetIfaceStats (Some ''wlan0''), Call_parseIfaceStats (Some ''wlan0'')]) \<and>
   nativeGetUidStat (legacy_env (proc_tables wlan0_table uid_table)) 1000 RX_BYTES =
     (10, [Call_bpfGetUidStats 1000, Call_parseUidStats 1000]) \<and>
   nativeGetTotalStat (legacy_env (\<lambda>path. None)) RX_BYTES =
     (UNKNOWN, [Call_bpfGetIfaceStats None, Call_parseIfaceStats None]) \<and>
   nativeGetIfaceStat (legacy_env (\<lambda>path. None)) (Some ''wlan0'') RX_BYTES =
     (UNKNOWN, [Call_bpfGetIfaceStats (Some ''wlan0''), Call_parseIfaceStats (Some ''wlan0'')]) \<and>
   nativeGetUidStat (legacy_env (\<lambda>path. None)) 1000 RX_BYTES =
     (UNKNOWN, [Call_bpfGetUidStats 1000, Call_parseUidStats 1000])"
proof -
  let ?r = "\<lparr>rxBytes = 1, rxPackets = 2, txBytes = 3, txPackets = 4\<rparr>"
  let ?fs = "proc_tables wlan0_table uid_table"
  let ?if = "\<lparr>rxBytes = 150, rxPackets = 7, txBytes = 200, txPackets = 10\<rparr>"
  let ?ui = "\<lparr>rxBytes = 10, rxPackets = 1, txBytes = 20, txPackets = 2\<rparr>"
  note sel = getStatsType_def RX_BYTES_def RX_PACKETS_def TX_BYTES_def TX_PACKETS_def
  from dispatcher_cascade [of "primary_env ?r ?fs" ?r TX_BYTES 0 ?r "''wlan0''" 1000]
  have a: "nativeGetTotalStat (primary_env ?r ?fs) TX_BYTES = (3, [Call_bpfGetIfaceStats None])"
    "nativeGetIfaceStat (primary_env ?r ?fs) (Some ''wlan0'') TX_BYTES =
       (3, [Call_bpfGetIfaceStats (Some ''wlan0'')])"
    "nativeGetUidStat (primary_env ?r ?fs) 1000 TX_BYTES = (3, [Call_bpfGetUidStats 1000])"
    by (simp_all add: primary_env_def uint32_of_jint_bits sel)
  from dispatcher_cascade [of "legacy_env ?fs" zero_stats RX_BYTES "- 1" ?if "''wlan0''" 1000]
  have b: "nativeGetTotalStat (legacy_env ?fs) RX_BYTES =
       (150, [Call_bpfGetIfaceStats None, Call_parseIfaceStats None])"
    "nativeGetIfaceStat (legacy_env ?fs) (Some ''wlan0'') RX_BYTES =
       (150, [Call_bpfGetIfaceStats (Some ''wlan0''), Call_parseIfaceStats (Some ''wlan0'')])"
    by (simp_all add: legacy_env_def wlan0_eval sel)
  from dispatcher_cascade [of "legacy_env ?fs" zero_stats RX_BYTES "- 1" ?ui "''wlan0''" 1000]
  have c: "nativeGetUidStat (legacy_env ?fs) 1000 RX_BYTES =
       (10, [Call_bpfGetUidStats 1000, Call_parseUidStats 1000])"
    by (simp add: legacy_env_def uid_eval uint32_of_jint_bits sel)
  have f: "fst (parseIfaceStats (\<lambda>path. None) iface zero_stats) \<noteq> 0"
    "fst (parseUidStats (\<lambda>path. None) uid zero_stats) \<noteq> 0" for iface uid
    by (simp_all add: parseIfaceStats_def parseUidStats_def fopen_def)
  from dispatcher_cascade [of "legacy_env (\<lambda>path. None)" zero_stats RX_BYTES "- 1" zero_stats "''wlan0''" 1000]
  have d: "nativeGetTotalStat (legacy_env (\<lambda>path. None)) RX_BYTES =
       (UNKNOWN, [Call_bpfGetIfaceStats None, Call_parseIfaceStats None])"
    "nativeGetIfaceStat (legacy_env (\<lambda>path. None)) (Some ''wlan0'') RX_BYTES =
       (UNKNOWN, [Call_bpfGetIfaceStats (Some ''wlan0''), Call_parseIfaceStats (Some ''wlan0'')])"
    "nativeGetUidStat (legacy_env (\<lambda>path. None)) 1000 RX_BYTES =
       (UNKNOWN, [Call_bpfGetUidStats 1000, Call_parseUidStats 1000])"
    by (simp_all add: legacy_env_def f uint32_of_jint_bits)
  from a b c d show ?thesis by simp
qed

section \<open>The interface-table parser sums the matching rows\<close>

text \<open>
  C1, as the code has it. For every content of the interface table that opens, each
  of the four counters of the record \<^verbatim>\<open>parseIfaceStats\<close> leaves is the counter the
  record held on entry plus the sum of that column over the matching rows, modulo
  \<open>2 ^ 64\<close>. The matching rows are taken from all the lines \<^verbatim>\<open>fgets\<close> delivers, in
  order: a line is a row exactly when \<^verbatim>\<open>sscanf\<close> assigned at least five arguments,
  and a row matches when the query name is unset or equals the row's name. A line
  that is not a row adds nothing and the lines after it are still read.
\<close>

theorem parseIfaceStats_sums:
  "fopen fs QTAGUID_IFACE_STATS = Some f \<Longrightarrow>
     unat (rxBytes (snd (parseIfaceStats fs iface stats))) =
       (unat (rxBytes stats) +
        (\<Sum>v\<leftarrow>iface_rows iface (table_lines (file_bytes f)). unat (if_rxBytes v))) mod 2 ^ 64 \<and>
     unat (rxPackets (snd (parseIfaceStats fs iface stats))) =
       (unat (rxPackets stats) +
        (\<Sum>v\<leftarrow>iface_rows iface (table_lines (file_bytes f)). unat (if_rxPackets v))) mod 2 ^ 64 \<and>
     unat (txBytes (snd (parseIfaceStats fs iface stats))) =
       (unat (txBytes stats) +
        (\<Sum>v\<leftarrow>iface_rows iface (table_lines (file_bytes f)). unat (if_txBytes v))) mod 2 ^ 64 \<and>
     unat (txPackets (snd (parseIfaceStats fs iface stats))) =
       (unat (txPackets stats) +
        (\<Sum>v\<leftarrow>iface_rows iface (table_lines (file_bytes f)). unat (if_txPackets v))) mod 2 ^ 64 \<and>
     iface_rows iface (table_lines (file_bytes f)) =
       filter (iface_matches iface) (List.map_filter iface_row (table_lines (file_bytes f))) \<and>
     (\<forall>buffer. (iface_row buffer = None) = (fst (sscanf buffer iface_stat_format) < 5))"
  by (simp add: parseIfaceStats_opened fold_iface_lines add_counters_def unat_add_sum_list
      comp_def iface_row_None_iff iface_rows_def)

text \<open>
  The claim as stated asks for the exact sums. Two rows of \<open>2 ^ 63\<close> received bytes
  each add up to \<open>2 ^ 64\<close>; the record, fresh and all-zero on entry, holds 0.
\<close>

theorem parseIfaceStats_sums_witness:
  "fopen (proc_tables wlan0_table uid_table) QTAGUID_IFACE_STATS =
     Some \<lparr>file_bytes = wlan0_table, fclose_result = 0\<rparr> \<and>
   unat (rxBytes (snd (parseIfaceStats (proc_tables wlan0_table uid_table) (Some ''wlan0'')
      \<lparr>rxBytes = 1, rxPackets = 2, txBytes = 3, txPackets = 4\<rparr>))) = 151 \<and>
   unat (rxPackets (snd (parseIfaceStats (proc_tables wlan0_table uid_table) (Some ''wlan0'')
      \<lparr>rxBytes = 1, rxPackets = 2, txBytes = 3, txPackets = 4\<rparr>))) = 9 \<and>
   unat (txBytes (snd (parseIfaceStats (proc_tables wlan0_table uid_table) (Some ''wlan0'')
      \<lparr>rxBytes = 1, rxPackets = 2, txBytes = 3, txPackets = 4\<rparr>))) = 203 \<and>
   unat (txPackets (snd (parseIfaceStats (proc_tables wlan0_table uid_table) (Some ''wlan0'')
      \<lparr>rxBytes = 1, rxPackets = 2, txBytes = 3, txPackets = 4\<rparr>))) = 14"
proof -
  have h: "fopen (proc_tables wlan0_table uid_table) QTAGUID_IFACE_STATS =
      Some \<lparr>file_bytes = wlan0_table, fclose_result = 0\<rparr>"
    by (simp add: fopen_def proc_tables_def)
  from parseIfaceStats_sums [OF h, of "Some ''wlan0''"
      "\<lparr>rxBytes = 1, rxPackets = 2, txBytes = 3, txPackets = 4\<rparr>"] h
  show ?thesis
    by (simp add: wlan0_rows)
qed

theorem exact_sums_counterexample:
  "unat (rxBytes (snd (parseIfaceStats (proc_tables overflow_table uid_table) None zero_stats))) = 0 \<and>
   (\<Sum>v\<leftarrow>iface_rows None (table_lines overflow_table). unat (if_rxBytes v)) = 2 ^ 64 \<and>
   unat (rxBytes (snd (parseIfaceStats (proc_tables overflow_table uid_table) None zero_stats))) \<noteq>
   (\<Sum>v\<leftarrow>iface_rows None (table_lines overflow_table). unat (if_rxBytes v))"
proof -
  have rows: "iface_rows None (table_lines overflow_table) =
     [\<lparr>cur_iface = ''a'', if_rxBytes = 9223372036854775808, if_rxPackets = 1, if_txBytes = 1, if_txPackets = 1\<rparr>,
      \<lparr>cur_iface = ''b'', if_rxBytes = 9223372036854775808, if_rxPackets = 1, if_txBytes = 1, if_txPackets = 1\<rparr>]"
    by (simp add: overflow_table_def table_eval rows_eval scan_eval)
  have out: "rxBytes (snd (parseIfaceStats (proc_tables overflow_table uid_table) None zero_stats)) = 0"
    by (simp add: proc_tables_def parse_eval overflow_table_def table_eval scan_eval zero_stats_def)
  show ?thesis
    by (simp add: rows out)
qed

section \<open>The uid-table parser keeps the untagged rows of the queried user\<close>



section \<open>A negative uid is compared as its unsigned reinterpretation\<close>

text \<open>
  C10. \<^verbatim>\<open>nativeGetUidStat\<close> takes the uid as a \<^verbatim>\<open>jint\<close> and passes it to
  \<^verbatim>\<open>bpfGetUidStats\<close> and \<^verbatim>\<open>parseUidStats\<close> as a \<^verbatim>\<open>uint32_t\<close>. For a negative uid
  the value passed is \<open>2 ^ 32\<close> plus the uid, and the loop body adds a line exactly
  when it is a row with tag zero whose user id is that unsigned value. So when the
  primary source fails and the uid table is read and closed, the query returns the
  selected counter of the record the primary source left plus the sums over exactly
  the untagged rows whose user id is \<open>2 ^ 32\<close> plus the uid; when the primary source
  returns 0 the query returns the counter of its record, and when the parser meets an
  I/O error it returns \<^verbatim>\<open>UNKNOWN\<close>.
\<close>

theorem negative_uid_reinterpreted:
  "sint uid < 0 \<Longrightarrow>
     uint (uint32_of_jint uid) = 2 ^ 32 + sint uid \<and>
     parseUidStats_line (uint32_of_jint uid) buffer stats =
       (case uid_row buffer of
          None \<Rightarrow> stats
        | Some v \<Rightarrow>
            if uint (cur_uid v) = 2 ^ 32 + sint uid \<and> tag v = 0
            then add_counters stats (uid_rxBytes v) (uid_rxPackets v) (uid_txBytes v) (uid_txPackets v)
            else stats) \<and>
     (fst (bpfGetUidStats env (uint32_of_jint uid) zero_stats) \<noteq> 0 \<longrightarrow>
        snd (nativeGetUidStat env uid type) =
          [Call_bpfGetUidStats (uint32_of_jint uid), Call_parseUidStats (uint32_of_jint uid)]) \<and>
     (bpfGetUidStats env (uint32_of_jint uid) zero_stats = (rc, r) \<and> rc \<noteq> 0 \<and>
      fopen (proc_fs env) QTAGUID_UID_STATS = Some f \<and> fclose f = 0 \<longrightarrow>
        nativeGetUidStat env uid type =
          (getStatsType
             (add_counters r
                (\<Sum>v\<leftarrow>untagged_rows_of (2 ^ 32 + sint uid) (table_lines (file_bytes f)). uid_rxBytes v)
                (\<Sum>v\<leftarrow>untagged_rows_of (2 ^ 32 + sint uid) (table_lines (file_bytes f)). uid_rxPackets v)
                (\<Sum>v\<leftarrow>untagged_rows_of (2 ^ 32 + sint uid) (table_lines (file_bytes f)). uid_txBytes v)
                (\<Sum>v\<leftarrow>untagged_rows_of (2 ^ 32 + sint uid) (table_lines (file_bytes f)). uid_txPackets v))
             type,
           [Call_bpfGetUidStats (uint32_of_jint uid), Call_parseUidStats (uint32_of_jint uid)])) \<and>
     (bpfGetUidStats env (uint32_of_jint uid) zero_stats = (0, r) \<longrightarrow>
        nativeGetUidStat env uid type =
          (getStatsType r type, [Call_bpfGetUidStats (uint32_of_jint uid)])) \<and>
     (fst (bpfGetUidStats env (uint32_of_jint uid) zero_stats) \<noteq> 0 \<and>
      io_error (proc_fs env) QTAGUID_UID_STATS \<longrightarrow>
        fst (nativeGetUidStat env uid type) = UNKNOWN)"
proof -
  assume neg: "sint uid < 0"
  have u: "uint (uint32_of_jint uid) = 2 ^ 32 + sint uid"
    using sint_neg_uint [OF neg] by (simp add: uint32_of_jint_bits)
  have m: "(cur_uid v = uint32_of_jint uid) = (uint (cur_uid v) = 2 ^ 32 + sint uid)" for v
    using u by (simp add: word_uint_eq_iff)
  have mm: "uid_matches (uint32_of_jint uid) = (\<lambda>v. uint (cur_uid v) = 2 ^ 32 + sint uid \<and> tag v = 0)"
    by (rule ext) (simp add: uid_matches_def m)
  have rows: "uid_rows (uint32_of_jint uid) lines = untagged_rows_of (2 ^ 32 + sint uid) lines" for lines
    unfolding uid_rows_def untagged_rows_of_def mm by (rule refl)
  have line: "parseUidStats_line (uint32_of_jint uid) buffer stats =
       (case uid_row buffer of
          None \<Rightarrow> stats
        | Some v \<Rightarrow>
            if uint (cur_uid v) = 2 ^ 32 + sint uid \<and> tag v = 0
            then add_counters stats (uid_rxBytes v) (uid_rxPackets v) (uid_txBytes v) (uid_txPackets v)
            else stats)"
    by (simp add: parseUidStats_line_eq uid_matches_def m split: option.splits)
  have calls: "snd (nativeGetUidStat env uid type) =
      [Call_bpfGetUidStats (uint32_of_jint uid), Call_parseUidStats (uint32_of_jint uid)]"
    if "fst (bpfGetUidStats env (uint32_of_jint uid) zero_stats) \<noteq> 0"
    using that by (auto simp: nativeGetUidStat_def split: prod.splits)
  have val: "nativeGetUidStat env uid type =
          (getStatsType
             (add_counters r
                (\<Sum>v\<leftarrow>untagged_rows_of (2 ^ 32 + sint uid) (table_lines (file_bytes f)). uid_rxBytes v)
                (\<Sum>v\<leftarrow>untagged_rows_of (2 ^ 32 + sint uid) (table_lines (file_bytes f)). uid_rxPackets v)
                (\<Sum>v\<leftarrow>untagged_rows_of (2 ^ 32 + sint uid) (table_lines (file_bytes f)). uid_txBytes v)
                (\<Sum>v\<leftarrow>untagged_rows_of (2 ^ 32 + sint uid) (table_lines (file_bytes f)). uid_txPackets v))
             type,
           [Call_bpfGetUidStats (uint32_of_jint uid), Call_parseUidStats (uint32_of_jint uid)])"
    if "bpfGetUidStats env (uint32_of_jint uid) zero_stats = (rc, r)" "rc \<noteq> 0"
      "fopen (proc_fs env) QTAGUID_UID_STATS = Some f" "fclose f = 0"
    using nativeGetUidStat_fallback [OF that, of type] by (simp add: rows)
  have hit: "nativeGetUidStat env uid type =
          (getStatsType r type, [Call_bpfGetUidStats (uint32_of_jint uid)])"
    if "bpfGetUidStats env (uint32_of_jint uid) zero_stats = (0, r)"
    using that by (simp add: nativeGetUidStat_def)
  have err: "fst (nativeGetUidStat env uid type) = UNKNOWN"
    if "fst (bpfGetUidStats env (uint32_of_jint uid) zero_stats) \<noteq> 0"
      "io_error (proc_fs env) QTAGUID_UID_STATS"
    using that parseUidStats_rc [of "proc_fs env" "uint32_of_jint uid"
        "snd (bpfGetUidStats env (uint32_of_jint uid) zero_stats)"]
    by (auto simp: nativeGetUidStat_def split: prod.splits)
  show ?thesis
    apply (intro conjI impI)
         apply (rule u)
        apply (rule line)
       apply (erule calls)
      apply (elim conjE, erule (3) val)
     apply (erule hit)
    apply (elim conjE, erule (1) err)
    done
qed

theorem negative_uid_reinterpreted_witness:
  "sint (- 1 :: jint) < 0 \<and>
   uint (uint32_of_jint (- 1)) = 4294967295 \<and>
   parseUidStats_line (uint32_of_jint (- 1)) minus_one_table zero_stats =
     \<lparr>rxBytes = 10, rxPackets = 1, txBytes = 20, txPackets = 2\<rparr> \<and>
   parseUidStats_line (uint32_of_jint (- 1)) untagged_table zero_stats = zero_stats \<and>
   snd (nativeGetUidStat (legacy_env (proc_tables wlan0_table minus_one_table)) (- 1) RX_BYTES) =
     [Call_bpfGetUidStats 4294967295, Call_parseUidStats 4294967295] \<and>
   nativeGetUidStat (legacy_env (proc_tables wlan0_table mixed_uid_table)) (- 1) RX_BYTES =
     (10, [Call_bpfGetUidStats 4294967295, Call_parseUidStats 4294967295]) \<and>
   nativeGetUidStat (legacy_env (proc_tables wlan0_table mixed_uid_table)) (- 1) TX_BYTES =
     (20, [Call_bpfGetUidStats 4294967295, Call_parseUidStats 4294967295]) \<and>
   nativeGetUidStat
     (primary_env \<lparr>rxBytes = 1, rxPackets = 2, txBytes = 3, txPackets = 4\<rparr>
        (proc_tables wlan0_table mixed_uid_table)) (- 1) RX_BYTES =
     (1, [Call_bpfGetUidStats 4294967295]) \<and>
   fst (nativeGetUidStat (legacy_env close_fails) (- 1) RX_BYTES) = UNKNOWN"
proof -
  let ?env = "legacy_env (proc_tables wlan0_table mixed_uid_table)"
  let ?f = "\<lparr>file_bytes = mixed_uid_table, fclose_result = 0\<rparr>"
  let ?r = "\<lparr>rxBytes = 1, rxPackets = 2, txBytes = 3, txPackets = 4\<rparr>"
  let ?calls = "[Call_bpfGetUidStats 4294967295, Call_parseUidStats 4294967295]"
  have h: "sint (- 1 :: jint) < 0"
    by simp
  have r1: "uid_row minus_one_table =
      Some \<lparr>idx = 2, uid_iface = ''wlan0'', tag = 0, cur_uid = 4294967295, set_id = 0,
            uid_rxBytes = 10, uid_rxPackets = 1, uid_txBytes = 20, uid_txPackets = 2\<rparr>"
    by (simp add: minus_one_table_def uid_row_def scan_eval)
  have r2: "uid_row untagged_table =
      Some \<lparr>idx = 2, uid_iface = ''wlan0'', tag = 0, cur_uid = 1000, set_id = 0,
            uid_rxBytes = 10, uid_rxPackets = 1, uid_txBytes = 20, uid_txPackets = 2\<rparr>"
    by (simp add: untagged_table_def uid_row_def scan_eval)
  have k: "uint32_of_jint (- 1) = 4294967295"
    by (simp add: uint32_of_jint_bits)
  have o: "fopen (proc_fs ?env) QTAGUID_UID_STATS = Some ?f" "fclose ?f = 0"
    by (simp_all add: fopen_def fclose_def legacy_env_def proc_tables_def QTAGUID_UID_STATS_def
        QTAGUID_IFACE_STATS_def)
  have b: "bpfGetUidStats ?env (uint32_of_jint (- 1)) zero_stats = (- 1, zero_stats)"
    by (simp add: legacy_env_def)
  have io: "io_error (proc_fs (legacy_env close_fails)) QTAGUID_UID_STATS"
    by (simp add: io_error_def fopen_def fclose_def close_fails_def legacy_env_def)
  note sel = getStatsType_def RX_BYTES_def RX_PACKETS_def TX_BYTES_def TX_PACKETS_def
  from negative_uid_reinterpreted [OF h, of minus_one_table zero_stats
      "legacy_env (proc_tables wlan0_table minus_one_table)" RX_BYTES]
    negative_uid_reinterpreted [OF h, of untagged_table zero_stats
      "legacy_env (proc_tables wlan0_table minus_one_table)" RX_BYTES]
  have 1: "uint (uint32_of_jint (- 1)) = 4294967295"
    "parseUidStats_line (uint32_of_jint (- 1)) minus_one_table zero_stats =
       \<lparr>rxBytes = 10, rxPackets = 1, txBytes = 20, txPackets = 2\<rparr>"
    "parseUidStats_line (uint32_of_jint (- 1)) untagged_table zero_stats = zero_stats"
    "snd (nativeGetUidStat (legacy_env (proc_tables wlan0_table minus_one_table)) (- 1) RX_BYTES) =
       ?calls"
    by (simp_all add: r1 r2 k add_counters_def zero_stats_def legacy_env_def)
  from negative_uid_reinterpreted [OF h, where env = ?env and type = RX_BYTES and rc = "- 1"
      and r = zero_stats and f = ?f] b o
  have 2: "nativeGetUidStat ?env (- 1) RX_BYTES = (10, ?calls)"
    by (simp add: mixed_rows k add_counters_def zero_stats_def sel)
  from negative_uid_reinterpreted [OF h, where env = ?env and type = TX_BYTES and rc = "- 1"
      and r = zero_stats and f = ?f] b o
  have 3: "nativeGetUidStat ?env (- 1) TX_BYTES = (20, ?calls)"
    by (simp add: mixed_rows k add_counters_def zero_stats_def sel)
  from negative_uid_reinterpreted [OF h, where type = RX_BYTES and r = ?r
      and env = "primary_env ?r (proc_tables wlan0_table mixed_uid_table)"]
  have 4: "nativeGetUidStat (primary_env ?r (proc_tables wlan0_table mixed_uid_table)) (- 1) RX_BYTES =
      (1, [Call_bpfGetUidStats 4294967295])"
    by (simp add: primary_env_def k sel)
  from negative_uid_reinterpreted [OF h, where type = RX_BYTES and env = "legacy_env close_fails"] io
  have 5: "fst (nativeGetUidStat (legacy_env close_fails) (- 1) RX_BYTES) = UNKNOWN"
    by (simp add: legacy_env_def)
  show ?thesis
    by (intro conjI h 1 2 3 4 5)
qed

section \<open>I/O errors of the parsers\<close>

text \<open>
  C6. Each legacy parser returns \<open>- 1\<close> when its table cannot be opened or when
  closing it fails, and 0 otherwise, whatever the lines of the table are. When the
  table cannot be opened the record is not touched. When the table is read and no line
  matches, the record is left as it was, so the all-zero record of a query stays
  all-zero. In the dispatcher, a failed primary source followed by an I/O error of the
  parser gives \<^verbatim>\<open>UNKNOWN\<close>.
\<close>

theorem parser_io_contract:
  "fst (parseIfaceStats fs iface stats) = (if io_error fs QTAGUID_IFACE_STATS then - 1 else 0) \<and>
   fst (parseUidStats fs uid stats) = (if io_error fs QTAGUID_UID_STATS then - 1 else 0) \<and>
   io_error fs path = (fopen fs path = None \<or> (\<exists>f. fopen fs path = Some f \<and> fclose f \<noteq> 0)) \<and>
   (fopen fs QTAGUID_IFACE_STATS = None \<longrightarrow> parseIfaceStats fs iface stats = (- 1, stats)) \<and>
   (fopen fs QTAGUID_UID_STATS = None \<longrightarrow> parseUidStats fs uid stats = (- 1, stats)) \<and>
   (fopen fs QTAGUID_IFACE_STATS = Some f \<and> iface_rows iface (table_lines (file_bytes f)) = [] \<longrightarrow>
      snd (parseIfaceStats fs iface stats) = stats) \<and>
   (fopen fs QTAGUID_UID_STATS = Some g \<and> uid_rows uid (table_lines (file_bytes g)) = [] \<longrightarrow>
      snd (parseUidStats fs uid stats) = stats) \<and>
   (fst (bpfGetIfaceStats env None zero_stats) \<noteq> 0 \<and> io_error (proc_fs env) QTAGUID_IFACE_STATS \<longrightarrow>
      fst (nativeGetTotalStat env type) = UNKNOWN) \<and>
   (fst (bpfGetIfaceStats env (Some name) zero_stats) \<noteq> 0 \<and>
    io_error (proc_fs env) QTAGUID_IFACE_STATS \<longrightarrow>
      fst (nativeGetIfaceStat env (Some name) type) = UNKNOWN) \<and>
   (fst (bpfGetUidStats env (uint32_of_jint u) zero_stats) \<noteq> 0 \<and>
    io_error (proc_fs env) QTAGUID_UID_STATS \<longrightarrow>
      fst (nativeGetUidStat env u type) = UNKNOWN)"
proof -
  have e: "io_error fs path = (fopen fs path = None \<or> (\<exists>f. fopen fs path = Some f \<and> fclose f \<noteq> 0))"
    by (auto simp: io_error_def split: option.splits)
  have n1: "fopen fs QTAGUID_IFACE_STATS = None \<Longrightarrow> parseIfaceStats fs iface stats = (- 1, stats)"
    by (simp add: parseIfaceStats_def)
  have n2: "fopen fs QTAGUID_UID_STATS = None \<Longrightarrow> parseUidStats fs uid stats = (- 1, stats)"
    by (simp add: parseUidStats_def)
  have z1: "snd (parseIfaceStats fs iface stats) = stats"
    if "fopen fs QTAGUID_IFACE_STATS = Some f" "iface_rows iface (table_lines (file_bytes f)) = []"
    using that by (simp add: parseIfaceStats_opened fold_iface_lines add_counters_def)
  have z2: "snd (parseUidStats fs uid stats) = stats"
    if "fopen fs QTAGUID_UID_STATS = Some g" "uid_rows uid (table_lines (file_bytes g)) = []"
    using that by (simp add: parseUidStats_opened fold_uid_lines add_counters_def)
  have d1: "fst (nativeGetTotalStat env type) = UNKNOWN"
    if "fst (bpfGetIfaceStats env None zero_stats) \<noteq> 0" "io_error (proc_fs env) QTAGUID_IFACE_STATS"
    using that parseIfaceStats_rc [of "proc_fs env" None "snd (bpfGetIfaceStats env None zero_stats)"]
    by (auto simp: nativeGetTotalStat_def split: prod.splits)
  have d2: "fst (nativeGetIfaceStat env (Some name) type) = UNKNOWN"
    if "fst (bpfGetIfaceStats env (Some name) zero_stats) \<noteq> 0"
      "io_error (proc_fs env) QTAGUID_IFACE_STATS"
    using that parseIfaceStats_rc [of "proc_fs env" "Some name"
        "snd (bpfGetIfaceStats env (Some name) zero_stats)"]
    by (auto simp: nativeGetIfaceStat_def split: prod.splits)
  have d3: "fst (nativeGetUidStat env u type) = UNKNOWN"
    if "fst (bpfGetUidStats env (uint32_of_jint u) zero_stats) \<noteq> 0"
      "io_error (proc_fs env) QTAGUID_UID_STATS"
    using that parseUidStats_rc [of "proc_fs env" "uint32_of_jint u"
        "snd (bpfGetUidStats env (uint32_of_jint u) zero_stats)"]
    by (auto simp: nativeGetUidStat_def split: prod.splits)
  show ?thesis
    apply (intro conjI impI)
             apply (rule parseIfaceStats_rc)
            apply (rule parseUidStats_rc)
           apply (rule e)
          apply (erule n1)
         apply (erule n2)
        apply (erule conjE, erule (1) z1)
       apply (erule conjE, erule (1) z2)
      apply (erule conjE, erule (1) d1)
     apply (erule conjE, erule (1) d2)
    apply (erule conjE, erule (1) d3)
    done
qed


theorem parser_io_contract_witness:
  "parseIfaceStats (\<lambda>path. None) (Some ''wlan0'') zero_stats = (- 1, zero_stats) \<and>
   parseUidStats (\<lambda>path. None) 1000 zero_stats = (- 1, zero_stats) \<and>
   fst (parseIfaceStats close_fails (Some ''wlan0'') zero_stats) = - 1 \<and>
   fst (parseUidStats close_fails 1000 zero_stats) = - 1 \<and>
   parseIfaceStats (proc_tables wlan0_table uid_table) (Some ''eth0'') zero_stats = (0, zero_stats) \<and>
   parseUidStats (proc_tables wlan0_table uid_table) 77 zero_stats = (0, zero_stats) \<and>
   fst (nativeGetTotalStat (legacy_env (\<lambda>path. None)) RX_BYTES) = UNKNOWN \<and>
   fst (nativeGetIfaceStat (legacy_env close_fails) (Some ''wlan0'') RX_BYTES) = UNKNOWN \<and>
   fst (nativeGetUidStat (legacy_env close_fails) 1000 RX_BYTES) = UNKNOWN"
proof -
  let ?none = "\<lambda>path. None :: proc_file option"
  let ?fs = "proc_tables wlan0_table uid_table"
  let ?f = "\<lparr>file_bytes = wlan0_table, fclose_result = 0\<rparr>"
  let ?g = "\<lparr>file_bytes = uid_table, fclose_result = 0\<rparr>"
  have io: "io_error ?none p" "io_error close_fails p"
    "\<not> io_error ?fs QTAGUID_IFACE_STATS" "\<not> io_error ?fs QTAGUID_UID_STATS" for p
    by (simp_all add: io_error_def fopen_def fclose_def close_fails_def proc_tables_def
        QTAGUID_UID_STATS_def QTAGUID_IFACE_STATS_def)
  have op: "fopen ?fs QTAGUID_IFACE_STATS = Some ?f" "fopen ?fs QTAGUID_UID_STATS = Some ?g"
    by (simp_all add: fopen_def proc_tables_def QTAGUID_UID_STATS_def QTAGUID_IFACE_STATS_def)
  have no: "iface_rows (Some ''eth0'') (table_lines (file_bytes ?f)) = []"
    "uid_rows 77 (table_lines (file_bytes ?g)) = []"
    by (simp_all add: wlan0_table_def uid_table_def table_eval rows_eval scan_eval)
  have bpf: "fst (bpfGetIfaceStats (legacy_env fs) iface zero_stats) \<noteq> 0"
    "fst (bpfGetUidStats (legacy_env fs) k zero_stats) \<noteq> 0" for fs iface k
    by (simp_all add: legacy_env_def)
  have pf: "proc_fs (legacy_env fs) = fs" for fs
    by (simp add: legacy_env_def)
  note a = parser_io_contract [where fs = ?none and iface = "Some ''wlan0''" and stats = zero_stats
      and uid = 1000 and env = "legacy_env ?none" and type = RX_BYTES]
  note b = parser_io_contract [where fs = close_fails and iface = "Some ''wlan0''"
      and stats = zero_stats and uid = 1000 and env = "legacy_env close_fails"
      and name = "''wlan0''" and u = 1000 and type = RX_BYTES]
  note c = parser_io_contract [where fs = ?fs and iface = "Some ''eth0''" and stats = zero_stats
      and uid = 77 and f = ?f and g = ?g]
  have 1: "parseIfaceStats ?none (Some ''wlan0'') zero_stats = (- 1, zero_stats)"
    "parseUidStats ?none 1000 zero_stats = (- 1, zero_stats)"
    using a by (simp_all add: fopen_def)
  have 2: "fst (parseIfaceStats close_fails (Some ''wlan0'') zero_stats) = - 1"
    "fst (parseUidStats close_fails 1000 zero_stats) = - 1"
    using b io by simp_all
  have 3: "parseIfaceStats ?fs (Some ''eth0'') zero_stats = (0, zero_stats)"
    "parseUidStats ?fs 77 zero_stats = (0, zero_stats)"
    using c io op no by (simp_all add: prod_eq_iff)
  have 4: "fst (nativeGetTotalStat (legacy_env ?none) RX_BYTES) = UNKNOWN"
    using a io bpf by (simp add: pf)
  have 5: "fst (nativeGetIfaceStat (legacy_env close_fails) (Some ''wlan0'') RX_BYTES) = UNKNOWN"
    "fst (nativeGetUidStat (legacy_env close_fails) 1000 RX_BYTES) = UNKNOWN"
    using b io bpf by (simp_all add: pf uint32_of_jint_bits)
  show ?thesis
    by (intro conjI 1 2 3 4 5)
qed

section \<open>The interface name is read with a limit of 31 characters\<close>

text \<open>
  C9, as the code has it. \<^verbatim>\<open>%31s\<close> stores at most the first 31 characters of a
  line's name token, and the query name is compared with what was stored. So a query
  name longer than 31 characters matches no line; a line whose name token has at most
  31 characters is compared by its whole name; and a line whose name token is longer
  is compared by its first 31 characters, if it is a row at all: the characters after
  the 31st are read as the received-bytes counter, and when the 32nd is not a digit or
  a sign the line is not a row and adds nothing, whatever the query name is.
\<close>

theorem iface_name_31_limit:
  "parseIfaceStats_line (Some name) buffer stats =
     (case iface_row buffer of
        None \<Rightarrow> stats
      | Some v \<Rightarrow>
          if c_str name = take 31 (name_token buffer)
          then add_counters stats (if_rxBytes v) (if_rxPackets v) (if_txBytes v) (if_txPackets v)
          else stats) \<and>
   (31 < length (c_str name) \<longrightarrow> parseIfaceStats_line (Some name) buffer stats = stats) \<and>
   (length (name_token buffer) \<le> 31 \<longrightarrow>
      parseIfaceStats_line (Some name) buffer stats =
        (case iface_row buffer of
           None \<Rightarrow> stats
         | Some v \<Rightarrow>
             if c_str name = name_token buffer
             then add_counters stats (if_rxBytes v) (if_rxPackets v) (if_txBytes v) (if_txPackets v)
             else stats)) \<and>
   (31 < length (name_token buffer) \<and> \<not> is_digit 10 (name_token buffer ! 31) \<and>
    name_token buffer ! 31 \<noteq> CHR ''+'' \<and> name_token buffer ! 31 \<noteq> CHR ''-'' \<longrightarrow>
      iface_row buffer = None \<and> parseIfaceStats_line iface buffer stats = stats)"
proof -
  have master: "parseIfaceStats_line (Some name) buffer stats =
     (case iface_row buffer of
        None \<Rightarrow> stats
      | Some v \<Rightarrow>
          if c_str name = take 31 (name_token buffer)
          then add_counters stats (if_rxBytes v) (if_rxPackets v) (if_txBytes v) (if_txPackets v)
          else stats)"
    by (simp add: parseIfaceStats_line_eq iface_matches_def cur_iface_token split: option.splits)
  have long_query: "parseIfaceStats_line (Some name) buffer stats = stats"
    if "31 < length (c_str name)"
  proof -
    have "length (take 31 (name_token buffer)) \<le> 31"
      by simp
    with that have "c_str name \<noteq> take 31 (name_token buffer)"
      by (metis not_less)
    then show ?thesis
      by (simp add: master split: option.splits)
  qed
  have short_token: "parseIfaceStats_line (Some name) buffer stats =
        (case iface_row buffer of
           None \<Rightarrow> stats
         | Some v \<Rightarrow>
             if c_str name = name_token buffer
             then add_counters stats (if_rxBytes v) (if_rxPackets v) (if_txBytes v) (if_txPackets v)
             else stats)"
    if "length (name_token buffer) \<le> 31"
    using that by (simp add: master split: option.splits)
  have skipped: "iface_row buffer = None \<and> parseIfaceStats_line iface buffer stats = stats"
    if "31 < length (name_token buffer)" "\<not> is_digit 10 (name_token buffer ! 31)"
      "name_token buffer ! 31 \<noteq> CHR ''+''" "name_token buffer ! 31 \<noteq> CHR ''-''"
  proof -
    have "fst (sscanf buffer iface_stat_format) = 1"
      unfolding sscanf_def iface_stat_format_def by (rule long_token_scan [OF that])
    then have "iface_row buffer = None"
      by (simp add: iface_row_None_iff)
    then show ?thesis
      by (simp add: parseIfaceStats_line_eq)
  qed
  show ?thesis
    apply (intro conjI impI)
        apply (rule master)
       apply (erule long_query)
      apply (erule short_token)
     apply (elim conjE, rule skipped [THEN conjunct1], assumption+)
    apply (elim conjE, rule skipped [THEN conjunct2], assumption+)
    done
qed

theorem iface_name_31_limit_witness:
  "parseIfaceStats_line (Some ''wlan0'') ''wlan0 100 5 200 10
'' zero_stats = \<lparr>rxBytes = 100, rxPackets = 5, txBytes = 200, txPackets = 10\<rparr> \<and>
   parseIfaceStats_line (Some ''wlan'') ''wlan0 100 5 200 10
'' zero_stats = zero_stats \<and>
   parseIfaceStats_line (Some name32) long_name_line zero_stats = zero_stats \<and>
   parseIfaceStats_line (Some name31) long_name_line zero_stats = zero_stats \<and>
   parseIfaceStats_line None long_name_line zero_stats = zero_stats \<and>
   parseIfaceStats_line (Some name31) digit_name_line zero_stats =
     \<lparr>rxBytes = 7, rxPackets = 1, txBytes = 2, txPackets = 3\<rparr>"
proof -
  let ?wlan = "''wlan0 100 5 200 10
''"
  have c: "c_str ''wlan0'' = ''wlan0''" "c_str ''wlan'' = ''wlan''" "c_str name31 = name31"
    "c_str name32 = name32"
    by (simp_all add: c_str_def name31_def name32_def)
  have l: "31 < length (c_str name32)" "length (name_token ?wlan) \<le> 31"
    "31 < length (name_token long_name_line)"
    by (simp_all add: c long_line_eval) (simp_all add: name32_def)
  have d: "\<not> is_digit 10 (name_token long_name_line ! 31)"
    "name_token long_name_line ! 31 \<noteq> CHR ''+''" "name_token long_name_line ! 31 \<noteq> CHR ''-''"
    by (simp_all add: long_line_eval name32_def is_digit_def digit_of_def)
  from iface_name_31_limit [of "''wlan0''" ?wlan zero_stats] l(2)
  have 1: "parseIfaceStats_line (Some ''wlan0'') ?wlan zero_stats =
      \<lparr>rxBytes = 100, rxPackets = 5, txBytes = 200, txPackets = 10\<rparr>"
    by (simp add: digit_line_row long_line_eval c add_counters_def zero_stats_def)
  from iface_name_31_limit [of "''wlan''" ?wlan zero_stats] l(2)
  have 2: "parseIfaceStats_line (Some ''wlan'') ?wlan zero_stats = zero_stats"
    by (simp add: digit_line_row long_line_eval c)
  from iface_name_31_limit [of name32 long_name_line zero_stats] l(1)
  have 3: "parseIfaceStats_line (Some name32) long_name_line zero_stats = zero_stats"
    by blast
  from iface_name_31_limit [of name31 long_name_line zero_stats "Some name31"] l(3) d
  have 4: "parseIfaceStats_line (Some name31) long_name_line zero_stats = zero_stats"
    by blast
  from iface_name_31_limit [of name31 long_name_line zero_stats None] l(3) d
  have 5: "parseIfaceStats_line None long_name_line zero_stats = zero_stats"
    by blast
  have t: "take 31 (name_token digit_name_line) = name31"
    by (simp add: long_line_eval name31_def)
  from iface_name_31_limit [of name31 digit_name_line zero_stats]
  have 6: "parseIfaceStats_line (Some name31) digit_name_line zero_stats =
      \<lparr>rxBytes = 7, rxPackets = 1, txBytes = 2, txPackets = 3\<rparr>"
    by (simp add: digit_line_row t c add_counters_def zero_stats_def)
  show ?thesis
    by (intro conjI 1 2 3 4 5 6)
qed

text \<open>
  The claim as stated has a query name of 31 characters match every line whose name
  token begins with it. The name token here is the query name followed by a letter,
  and four counters follow it: \<^verbatim>\<open>sscanf\<close> assigns one argument and the line adds
  nothing.
\<close>

theorem long_row_name_counterexample:
  "length name31 = 31 \<and>
   take 31 (name_token long_name_line) = name31 \<and>
   length (name_token long_name_line) = 32 \<and>
   fst (sscanf long_name_line iface_stat_format) = 1 \<and>
   parseIfaceStats_line (Some name31) long_name_line zero_stats = zero_stats"
proof -
  have s: "sscanf long_name_line iface_stat_format = (1, [Arg_s name31])"
    by (simp add: long_name_line_def name31_def scan_eval)
  show ?thesis
    by (simp add: s parseIfaceStats_line_def long_line_eval) (simp add: name31_def name32_def)
qed

section \<open>The fallback accumulates into the record the primary source left\<close>

text \<open>
  C5. Every failure path returns \<^verbatim>\<open>UNKNOWN\<close> (see the cascade above), and no native
  method raises. The native methods pass one record to the primary source and then,
  when it fails, to the legacy parser, which adds to it. With a primary source that
  adds 7 received bytes before it fails, and a table whose matching rows sum to 150
  (interface) and 10 (uid), the results are 157 and 17.
\<close>

theorem fallback_adds_to_leftover:
  "nativeGetTotalStat (leaky_env (proc_tables wlan0_table uid_table)) RX_BYTES =
     (157, [Call_bpfGetIfaceStats None, Call_parseIfaceStats None]) \<and>
   nativeGetIfaceStat (leaky_env (proc_tables wlan0_table uid_table)) (Some ''wlan0'') RX_BYTES =
     (157, [Call_bpfGetIfaceStats (Some ''wlan0''), Call_parseIfaceStats (Some ''wlan0'')]) \<and>
   rxBytes (snd (parseIfaceStats (proc_tables wlan0_table uid_table) None zero_stats)) = 150 \<and>
   nativeGetUidStat (leaky_env (proc_tables wlan0_table uid_table)) 1000 RX_BYTES =
     (17, [Call_bpfGetUidStats 1000, Call_parseUidStats 1000]) \<and>
   rxBytes (snd (parseUidStats (proc_tables wlan0_table uid_table) 1000 zero_stats)) = 10"
  by (simp add: nativeGetTotalStat_def nativeGetIfaceStat_def nativeGetUidStat_def leaky_env_def
      uint32_of_jint_bits proc_tables_def parse_eval wlan0_table_def uid_table_def table_eval
      scan_eval zero_stats_def getStatsType_def RX_BYTES_def)

end
